theory Spec2Isabelle
  imports Main "HOL-Library.Word"
begin

unbundle bit_operations_syntax

section \<open>Constants of the controller and of the expander\<close>

type_synonym uint8_t = "8 word"

text \<open>hd44780.h: the command set.\<close>

definition HD44780_CMD_CLEAR :: uint8_t where "HD44780_CMD_CLEAR = 0x01"
definition HD44780_CMD_HOME :: uint8_t where "HD44780_CMD_HOME = 0x02"
definition HD44780_CMD_ENTRY_MODE :: uint8_t where "HD44780_CMD_ENTRY_MODE = 0x04"
definition HD44780_CMD_DISPLAY_CTRL :: uint8_t where "HD44780_CMD_DISPLAY_CTRL = 0x08"
definition HD44780_CMD_FUNCTION_SET :: uint8_t where "HD44780_CMD_FUNCTION_SET = 0x20"
definition HD44780_CMD_SET_CGRAM :: uint8_t where "HD44780_CMD_SET_CGRAM = 0x40"
definition HD44780_CMD_SET_DDRAM :: uint8_t where "HD44780_CMD_SET_DDRAM = 0x80"

definition HD44780_ENTRY_INC :: uint8_t where "HD44780_ENTRY_INC = 0x02"

definition HD44780_DISPLAY_ON :: uint8_t where "HD44780_DISPLAY_ON = 0x04"
definition HD44780_CURSOR_ON :: uint8_t where "HD44780_CURSOR_ON = 0x02"
definition HD44780_BLINK_ON :: uint8_t where "HD44780_BLINK_ON = 0x01"

definition HD44780_4BIT_MODE :: uint8_t where "HD44780_4BIT_MODE = 0x00"
definition HD44780_2LINE :: uint8_t where "HD44780_2LINE = 0x08"
definition HD44780_5X8_DOTS :: uint8_t where "HD44780_5X8_DOTS = 0x00"

definition HD44780_LINE0_ADDR :: uint8_t where "HD44780_LINE0_ADDR = 0x00"
definition HD44780_LINE1_ADDR :: uint8_t where "HD44780_LINE1_ADDR = 0x40"
definition HD44780_LINE2_ADDR :: uint8_t where "HD44780_LINE2_ADDR = 0x14"
definition HD44780_LINE3_ADDR :: uint8_t where "HD44780_LINE3_ADDR = 0x54"

text \<open>Timing constants; the arguments of the delay functions are \<open>unsigned int\<close>.\<close>

definition HD44780_DELAY_CLEAR_US :: "32 word" where "HD44780_DELAY_CLEAR_US = 1600"
definition HD44780_DELAY_CMD_US :: "32 word" where "HD44780_DELAY_CMD_US = 50"
definition HD44780_DELAY_ENABLE_US :: "32 word" where "HD44780_DELAY_ENABLE_US = 1"
definition HD44780_DELAY_INIT_MS :: "32 word" where "HD44780_DELAY_INIT_MS = 50"

text \<open>i2clcd_internal.h: the pins of the PCF8574, written as the shifts of the header.\<close>

definition PCF8574_PIN_RS :: uint8_t where "PCF8574_PIN_RS = push_bit 0 1"
definition PCF8574_PIN_RW :: uint8_t where "PCF8574_PIN_RW = push_bit 1 1"
definition PCF8574_PIN_EN :: uint8_t where "PCF8574_PIN_EN = push_bit 2 1"
definition PCF8574_PIN_BL :: uint8_t where "PCF8574_PIN_BL = push_bit 3 1"
definition PCF8574_DATA_MASK :: uint8_t where "PCF8574_DATA_MASK = 0xF0"

section \<open>The session and the world outside it\<close>

text \<open>\<open>struct i2clcd_ctx\<close>. The array \<open>line_addr[4]\<close> is a list of four bytes.\<close>

record i2clcd_ctx =
  fd :: int
  i2c_addr :: uint8_t
  cols :: uint8_t
  rows :: uint8_t
  display_ctrl :: uint8_t
  entry_mode :: uint8_t
  backlight :: bool
  line_addr :: "uint8_t list"

text \<open>
  What the driver does to the outside: every byte it hands to \<open>write(2)\<close> and every
  delay it asks for, in program order.
\<close>

datatype event = Write uint8_t | Delay_us "32 word"

text \<open>
  The bus: the events so far, and what \<open>write(2)\<close> returns on its \<open>n\<close>-th call
  (counted from 0), so that any pattern of failing writes can be described.
\<close>

record bus =
  trace :: "event list"
  write_ret :: "nat \<Rightarrow> int"

fun bus_writes :: "event list \<Rightarrow> uint8_t list" where
  "bus_writes [] = []"
| "bus_writes (Write b # es) = b # bus_writes es"
| "bus_writes (Delay_us _ # es) = bus_writes es"

text \<open>Appending events to the trace.\<close>

definition emit :: "bus \<Rightarrow> event list \<Rightarrow> bus" where
  "emit w es = w\<lparr>trace := trace w @ es\<rparr>"

text \<open>The next \<open>k\<close> calls of \<open>write(2)\<close> return 1, that is, they succeed.\<close>

definition bus_ok :: "bus \<Rightarrow> nat \<Rightarrow> bool" where
  "bus_ok w k \<longleftrightarrow> (\<forall>i<k. write_ret w (length (bus_writes (trace w)) + i) = 1)"

section \<open>Timing functions\<close>

text \<open>
  \<open>i2clcd_delay_us\<close> sleeps for \<open>us\<close> microseconds, retrying \<open>nanosleep\<close> with the
  remaining time when a signal interrupts it; the model records the delay asked for.
\<close>

definition i2clcd_delay_us :: "32 word \<Rightarrow> bus \<Rightarrow> bus" where
  "i2clcd_delay_us us w = w\<lparr>trace := trace w @ [Delay_us us]\<rparr>"

definition i2clcd_delay_ms :: "32 word \<Rightarrow> bus \<Rightarrow> bus" where
  "i2clcd_delay_ms ms w = i2clcd_delay_us (ms * 1000) w"

section \<open>Low-level write functions\<close>

definition i2clcd_i2c_write_byte :: "i2clcd_ctx \<Rightarrow> uint8_t \<Rightarrow> bus \<Rightarrow> int \<times> bus" where
  "i2clcd_i2c_write_byte ctx byte w =
     (let ret = write_ret w (length (bus_writes (trace w)));
          w' = w\<lparr>trace := trace w @ [Write byte]\<rparr>
      in if ret \<noteq> 1 then (- 1, w') else (0, w'))"

definition i2clcd_write_nibble :: "i2clcd_ctx \<Rightarrow> uint8_t \<Rightarrow> bool \<Rightarrow> bus \<Rightarrow> int \<times> bus" where
  "i2clcd_write_nibble ctx nibble rs w =
     (let data0 = nibble AND PCF8574_DATA_MASK;
          data1 = (if rs then data0 OR PCF8574_PIN_RS else data0);
          data = (if backlight ctx then data1 OR PCF8574_PIN_BL else data1)
      in case i2clcd_i2c_write_byte ctx (data OR PCF8574_PIN_EN) w of (ret, w1) \<Rightarrow>
           if ret < 0 then (ret, w1)
           else case i2clcd_i2c_write_byte ctx data (i2clcd_delay_us HD44780_DELAY_ENABLE_US w1) of
             (ret', w2) \<Rightarrow>
               if ret' < 0 then (ret', w2)
               else (0, i2clcd_delay_us HD44780_DELAY_CMD_US w2))"

definition i2clcd_write_byte :: "i2clcd_ctx \<Rightarrow> uint8_t \<Rightarrow> bool \<Rightarrow> bus \<Rightarrow> int \<times> bus" where
  "i2clcd_write_byte ctx byte rs w =
     (case i2clcd_write_nibble ctx (byte AND 0xF0) rs w of (ret, w1) \<Rightarrow>
        if ret < 0 then (ret, w1)
        else i2clcd_write_nibble ctx (push_bit 4 byte AND 0xF0) rs w1)"

definition i2clcd_command :: "i2clcd_ctx \<Rightarrow> uint8_t \<Rightarrow> bus \<Rightarrow> int \<times> bus" where
  "i2clcd_command ctx cmd w = i2clcd_write_byte ctx cmd False w"

definition i2clcd_data :: "i2clcd_ctx \<Rightarrow> uint8_t \<Rightarrow> bus \<Rightarrow> int \<times> bus" where
  "i2clcd_data ctx data w = i2clcd_write_byte ctx data True w"

definition i2clcd_update_display_ctrl :: "i2clcd_ctx \<Rightarrow> bus \<Rightarrow> int \<times> bus" where
  "i2clcd_update_display_ctrl ctx w =
     i2clcd_command ctx (HD44780_CMD_DISPLAY_CTRL OR display_ctrl ctx) w"

text \<open>
  The events of one nibble and of one byte on a bus that accepts them, with the pin
  values written as numbers: register-select is 1, enable 4, backlight 8.
\<close>

definition pins :: "bool \<Rightarrow> bool \<Rightarrow> uint8_t" where
  "pins bl rs = (if rs then 1 else 0) OR (if bl then 8 else 0)"

definition nibble_events :: "bool \<Rightarrow> bool \<Rightarrow> uint8_t \<Rightarrow> event list" where
  "nibble_events bl rs n =
     [Write ((n AND 0xF0) OR pins bl rs OR 4), Delay_us 1,
      Write ((n AND 0xF0) OR pins bl rs), Delay_us 50]"

definition byte_events :: "bool \<Rightarrow> bool \<Rightarrow> uint8_t \<Rightarrow> event list" where
  "byte_events bl rs b = nibble_events bl rs (b AND 0xF0) @ nibble_events bl rs (push_bit 4 b)"

definition byte_frame :: "bool \<Rightarrow> bool \<Rightarrow> uint8_t \<Rightarrow> uint8_t list" where
  "byte_frame bl rs b =
     [(b AND 0xF0) OR pins bl rs OR 4, (b AND 0xF0) OR pins bl rs,
      (push_bit 4 b AND 0xF0) OR pins bl rs OR 4, (push_bit 4 b AND 0xF0) OR pins bl rs]"

text \<open>Bit \<open>n\<close> of a register set or cleared, the other bits kept.\<close>

definition with_flag :: "nat \<Rightarrow> bool \<Rightarrow> uint8_t \<Rightarrow> uint8_t" where
  "with_flag n on d = (if on then d OR 2 ^ n else d AND NOT (2 ^ n))"

section \<open>Opening and initialising a session\<close>

text \<open>\<open>i2clcd_err_t\<close>, and the number each code has in the header.\<close>

datatype i2clcd_err_t =
  I2CLCD_OK | I2CLCD_ERR_OPEN | I2CLCD_ERR_IOCTL | I2CLCD_ERR_WRITE
  | I2CLCD_ERR_INVALID_ARG | I2CLCD_ERR_NOT_INIT | I2CLCD_ERR_RANGE

fun err_code :: "i2clcd_err_t \<Rightarrow> int" where
  "err_code I2CLCD_OK = 0"
| "err_code I2CLCD_ERR_OPEN = - 1"
| "err_code I2CLCD_ERR_IOCTL = - 2"
| "err_code I2CLCD_ERR_WRITE = - 3"
| "err_code I2CLCD_ERR_INVALID_ARG = - 4"
| "err_code I2CLCD_ERR_NOT_INIT = - 5"
| "err_code I2CLCD_ERR_RANGE = - 6"

text \<open>\<open>i2clcd_size_t\<close> is a C enum, so a configuration can carry any integer.\<close>

definition I2CLCD_16X2 :: int where "I2CLCD_16X2 = 0"
definition I2CLCD_20X4 :: int where "I2CLCD_20X4 = 1"
definition I2CLCD_CUSTOM :: int where "I2CLCD_CUSTOM = 2"

text \<open>\<open>i2clcd_config_t\<close>; the fields carry the prefix \<open>cfg_\<close> to keep them apart from
  those of the session.\<close>

record i2clcd_config_t =
  cfg_i2c_device :: string
  cfg_i2c_addr :: uint8_t
  cfg_size :: int
  cfg_cols :: uint8_t
  cfg_rows :: uint8_t
  cfg_backlight :: bool

text \<open>
  What the operating system answers while a session is opened: whether \<open>calloc\<close>
  returns memory, what \<open>open(2)\<close> returns (a descriptor, or a negative number) and what
  \<open>ioctl(2)\<close> returns.
\<close>

record sys =
  calloc_ok :: bool
  open_ret :: int
  ioctl_ret :: int

text \<open>
  \<open>i2clcd_open\<close>. A null \<open>config\<close> is \<open>None\<close>; \<open>handle\<close> tells whether the pointer
  that receives the session is non-null. The second component of the result is what is
  stored through that pointer, if anything.
\<close>

definition i2clcd_open ::
  "sys \<Rightarrow> i2clcd_config_t option \<Rightarrow> bool \<Rightarrow> i2clcd_err_t \<times> i2clcd_ctx option" where
  "i2clcd_open os config handle =
     (case config of
        None \<Rightarrow> (I2CLCD_ERR_INVALID_ARG, None)
      | Some cfg \<Rightarrow>
          if \<not> handle then (I2CLCD_ERR_INVALID_ARG, None)
          else if \<not> calloc_ok os then (I2CLCD_ERR_OPEN, None)
          else
            let ctx0 = \<lparr>fd = 0, i2c_addr = 0, cols = 0, rows = 0, display_ctrl = 0,
                        entry_mode = 0, backlight = False, line_addr = [0, 0, 0, 0]\<rparr>;
                ctx1 = ctx0\<lparr>i2c_addr := cfg_i2c_addr cfg, backlight := cfg_backlight cfg\<rparr>;
                sized =
                  (if cfg_size cfg = I2CLCD_16X2 then Some (ctx1\<lparr>cols := 16, rows := 2\<rparr>)
                   else if cfg_size cfg = I2CLCD_20X4 then Some (ctx1\<lparr>cols := 20, rows := 4\<rparr>)
                   else if cfg_size cfg = I2CLCD_CUSTOM
                     then Some (ctx1\<lparr>cols := cfg_cols cfg, rows := cfg_rows cfg\<rparr>)
                   else None)
            in (case sized of
                 None \<Rightarrow> (I2CLCD_ERR_INVALID_ARG, None)
               | Some ctx2 \<Rightarrow>
                   let t0 = list_update (line_addr ctx2) 0 HD44780_LINE0_ADDR;
                       t1 = list_update t0 1 HD44780_LINE1_ADDR;
                       t2 = list_update t1 2 HD44780_LINE2_ADDR;
                       t3 = list_update t2 3 HD44780_LINE3_ADDR;
                       ctx3 = ctx2\<lparr>line_addr := t3\<rparr>;
                       ctx4 = ctx3\<lparr>fd := open_ret os\<rparr>
                   in if fd ctx4 < 0 then (I2CLCD_ERR_OPEN, None)
                      else if ioctl_ret os < 0 then (I2CLCD_ERR_IOCTL, None)
                      else (I2CLCD_OK,
                            Some (ctx4\<lparr>display_ctrl := HD44780_DISPLAY_ON,
                                        entry_mode := HD44780_ENTRY_INC\<rparr>))))"

text \<open>
  \<open>i2clcd_init\<close>. The source calls the write functions as statements: what they return
  is dropped, which is \<open>snd\<close> here. \<open>ctx = *handle\<close> reads the session that
  \<open>i2clcd_open\<close> has stored; it stores one whenever it returns \<open>I2CLCD_OK\<close>, so the
  branch \<open>None\<close> is never taken.
\<close>

definition i2clcd_init ::
  "sys \<Rightarrow> i2clcd_config_t option \<Rightarrow> bool \<Rightarrow> bus
     \<Rightarrow> i2clcd_err_t \<times> i2clcd_ctx option \<times> bus" where
  "i2clcd_init os config handle w =
     (case i2clcd_open os config handle of (err, h) \<Rightarrow>
        if err \<noteq> I2CLCD_OK then (err, h, w)
        else (case h of
          None \<Rightarrow> (err, None, w)
        | Some ctx \<Rightarrow>
            let w1 = i2clcd_delay_ms HD44780_DELAY_INIT_MS w;
                w2 = snd (i2clcd_i2c_write_byte ctx (if backlight ctx then PCF8574_PIN_BL else 0) w1);
                w3 = i2clcd_delay_ms 1 w2;
                w4 = snd (i2clcd_write_nibble ctx 0x30 False w3);
                w5 = i2clcd_delay_ms 5 w4;
                w6 = snd (i2clcd_write_nibble ctx 0x30 False w5);
                w7 = i2clcd_delay_us 150 w6;
                w8 = snd (i2clcd_write_nibble ctx 0x30 False w7);
                w9 = i2clcd_delay_us 150 w8;
                w10 = snd (i2clcd_write_nibble ctx 0x20 False w9);
                w11 = i2clcd_delay_us HD44780_DELAY_CMD_US w10;
                w12 = snd (i2clcd_command ctx
                        (HD44780_CMD_FUNCTION_SET OR HD44780_4BIT_MODE OR HD44780_2LINE
                           OR HD44780_5X8_DOTS) w11);
                ctxa = ctx\<lparr>display_ctrl := 0\<rparr>;
                w13 = snd (i2clcd_command ctxa HD44780_CMD_DISPLAY_CTRL w12);
                ctxb = ctxa\<lparr>entry_mode := HD44780_ENTRY_INC\<rparr>;
                w14 = snd (i2clcd_command ctxb (HD44780_CMD_ENTRY_MODE OR entry_mode ctxb) w13);
                ctxc = ctxb\<lparr>display_ctrl := HD44780_DISPLAY_ON\<rparr>;
                w15 = snd (i2clcd_command ctxc (HD44780_CMD_DISPLAY_CTRL OR display_ctrl ctxc) w14)
            in (I2CLCD_OK, Some ctxc, w15)))"

section \<open>Display control\<close>

text \<open>A null handle is \<open>None\<close>. Operations that only read the session return no session.\<close>

definition i2clcd_clear :: "i2clcd_ctx option \<Rightarrow> bus \<Rightarrow> i2clcd_err_t \<times> bus" where
  "i2clcd_clear handle w =
     (case handle of
        None \<Rightarrow> (I2CLCD_ERR_NOT_INIT, w)
      | Some ctx \<Rightarrow>
          (case i2clcd_command ctx HD44780_CMD_CLEAR w of (ret, w1) \<Rightarrow>
             if ret < 0 then (I2CLCD_ERR_WRITE, w1)
             else (I2CLCD_OK, i2clcd_delay_us HD44780_DELAY_CLEAR_US w1)))"

definition i2clcd_home :: "i2clcd_ctx option \<Rightarrow> bus \<Rightarrow> i2clcd_err_t \<times> bus" where
  "i2clcd_home handle w =
     (case handle of
        None \<Rightarrow> (I2CLCD_ERR_NOT_INIT, w)
      | Some ctx \<Rightarrow>
          (case i2clcd_command ctx HD44780_CMD_HOME w of (ret, w1) \<Rightarrow>
             if ret < 0 then (I2CLCD_ERR_WRITE, w1)
             else (I2CLCD_OK, i2clcd_delay_us HD44780_DELAY_CLEAR_US w1)))"

text \<open>
  The three toggles store the new flag in the session first and send the register
  afterwards; the session they return is the one the caller's pointer then refers to.
\<close>

definition i2clcd_display ::
  "i2clcd_ctx option \<Rightarrow> bool \<Rightarrow> bus \<Rightarrow> i2clcd_err_t \<times> i2clcd_ctx option \<times> bus" where
  "i2clcd_display handle on w =
     (case handle of
        None \<Rightarrow> (I2CLCD_ERR_NOT_INIT, None, w)
      | Some ctx \<Rightarrow>
          let ctx' = (if on then ctx\<lparr>display_ctrl := display_ctrl ctx OR HD44780_DISPLAY_ON\<rparr>
                      else ctx\<lparr>display_ctrl := display_ctrl ctx AND NOT HD44780_DISPLAY_ON\<rparr>)
          in case i2clcd_update_display_ctrl ctx' w of (ret, w1) \<Rightarrow>
               if ret < 0 then (I2CLCD_ERR_WRITE, Some ctx', w1)
               else (I2CLCD_OK, Some ctx', w1))"

definition i2clcd_cursor ::
  "i2clcd_ctx option \<Rightarrow> bool \<Rightarrow> bus \<Rightarrow> i2clcd_err_t \<times> i2clcd_ctx option \<times> bus" where
  "i2clcd_cursor handle visible w =
     (case handle of
        None \<Rightarrow> (I2CLCD_ERR_NOT_INIT, None, w)
      | Some ctx \<Rightarrow>
          let ctx' = (if visible then ctx\<lparr>display_ctrl := display_ctrl ctx OR HD44780_CURSOR_ON\<rparr>
                      else ctx\<lparr>display_ctrl := display_ctrl ctx AND NOT HD44780_CURSOR_ON\<rparr>)
          in case i2clcd_update_display_ctrl ctx' w of (ret, w1) \<Rightarrow>
               if ret < 0 then (I2CLCD_ERR_WRITE, Some ctx', w1)
               else (I2CLCD_OK, Some ctx', w1))"

definition i2clcd_blink ::
  "i2clcd_ctx option \<Rightarrow> bool \<Rightarrow> bus \<Rightarrow> i2clcd_err_t \<times> i2clcd_ctx option \<times> bus" where
  "i2clcd_blink handle blink w =
     (case handle of
        None \<Rightarrow> (I2CLCD_ERR_NOT_INIT, None, w)
      | Some ctx \<Rightarrow>
          let ctx' = (if blink then ctx\<lparr>display_ctrl := display_ctrl ctx OR HD44780_BLINK_ON\<rparr>
                      else ctx\<lparr>display_ctrl := display_ctrl ctx AND NOT HD44780_BLINK_ON\<rparr>)
          in case i2clcd_update_display_ctrl ctx' w of (ret, w1) \<Rightarrow>
               if ret < 0 then (I2CLCD_ERR_WRITE, Some ctx', w1)
               else (I2CLCD_OK, Some ctx', w1))"

section \<open>Cursor control\<close>

text \<open>
  \<open>line_addr[row]\<close> is a C array read. The row is checked against \<open>rows\<close> only, so a read
  past the four slots of the table is possible; C leaves it undefined, and the model
  returns the fault in its place.
\<close>

datatype fault = Out_of_bounds_read

definition i2clcd_set_cursor ::
  "i2clcd_ctx option \<Rightarrow> uint8_t \<Rightarrow> uint8_t \<Rightarrow> bus \<Rightarrow> fault + (i2clcd_err_t \<times> bus)" where
  "i2clcd_set_cursor handle col row w =
     (case handle of
        None \<Rightarrow> Inr (I2CLCD_ERR_NOT_INIT, w)
      | Some ctx \<Rightarrow>
          if row \<ge> rows ctx \<or> col \<ge> cols ctx then Inr (I2CLCD_ERR_RANGE, w)
          else if \<not> unat row < length (line_addr ctx) then Inl Out_of_bounds_read
          else
            let addr = line_addr ctx ! unat row + col
            in case i2clcd_command ctx (HD44780_CMD_SET_DDRAM OR addr) w of (ret, w1) \<Rightarrow>
                 if ret < 0 then Inr (I2CLCD_ERR_WRITE, w1) else Inr (I2CLCD_OK, w1))"

text \<open>The loop of \<open>i2clcd_clear_line\<close>; \<open>i\<close> never exceeds \<open>cols\<close>, which is a byte.\<close>

function clear_line_loop :: "i2clcd_ctx \<Rightarrow> nat \<Rightarrow> bus \<Rightarrow> i2clcd_err_t \<times> bus" where
  "clear_line_loop ctx i w =
     (if i < unat (cols ctx) then
        (case i2clcd_data ctx 0x20 w of (ret, w1) \<Rightarrow>
           if ret < 0 then (I2CLCD_ERR_WRITE, w1) else clear_line_loop ctx (i + 1) w1)
      else (I2CLCD_OK, w))"
  by pat_completeness auto
termination
  by (relation "measure (\<lambda>(ctx, i, w). unat (cols ctx) - i)") auto

declare clear_line_loop.simps [simp del]

definition i2clcd_clear_line ::
  "i2clcd_ctx option \<Rightarrow> uint8_t \<Rightarrow> bus \<Rightarrow> fault + (i2clcd_err_t \<times> bus)" where
  "i2clcd_clear_line handle line w =
     (case handle of
        None \<Rightarrow> Inr (I2CLCD_ERR_NOT_INIT, w)
      | Some ctx \<Rightarrow>
          if line \<ge> rows ctx then Inr (I2CLCD_ERR_RANGE, w)
          else
            (case i2clcd_set_cursor handle 0 line w of
               Inl f \<Rightarrow> Inl f
             | Inr (ret, w1) \<Rightarrow>
                 if ret \<noteq> I2CLCD_OK then Inr (ret, w1) else Inr (clear_line_loop ctx 0 w1)))"

section \<open>Writing text\<close>

text \<open>
  A C string is the list of its bytes, the terminating NUL left out; a null pointer is
  \<open>None\<close>. Reading stops at the first zero byte, as \<open>strlen\<close> and \<open>while (*str)\<close> do.
\<close>

definition strlen :: "uint8_t list \<Rightarrow> nat" where
  "strlen s = length (takeWhile (\<lambda>c. c \<noteq> 0) s)"

definition i2clcd_putc :: "i2clcd_ctx option \<Rightarrow> uint8_t \<Rightarrow> bus \<Rightarrow> i2clcd_err_t \<times> bus" where
  "i2clcd_putc handle c w =
     (case handle of
        None \<Rightarrow> (I2CLCD_ERR_NOT_INIT, w)
      | Some ctx \<Rightarrow>
          (case i2clcd_data ctx c w of (ret, w1) \<Rightarrow>
             if ret < 0 then (I2CLCD_ERR_WRITE, w1) else (I2CLCD_OK, w1)))"

fun puts_loop :: "i2clcd_ctx \<Rightarrow> uint8_t list \<Rightarrow> bus \<Rightarrow> i2clcd_err_t \<times> bus" where
  "puts_loop ctx [] w = (I2CLCD_OK, w)"
| "puts_loop ctx (c # str) w =
     (if c = 0 then (I2CLCD_OK, w)
      else case i2clcd_data ctx c w of (ret, w1) \<Rightarrow>
        if ret < 0 then (I2CLCD_ERR_WRITE, w1) else puts_loop ctx str w1)"

definition i2clcd_puts ::
  "i2clcd_ctx option \<Rightarrow> uint8_t list option \<Rightarrow> bus \<Rightarrow> i2clcd_err_t \<times> bus" where
  "i2clcd_puts handle str w =
     (case handle of
        None \<Rightarrow> (I2CLCD_ERR_NOT_INIT, w)
      | Some ctx \<Rightarrow>
          (case str of
             None \<Rightarrow> (I2CLCD_ERR_INVALID_ARG, w)
           | Some s \<Rightarrow> puts_loop ctx s w))"

text \<open>The loop of \<open>i2clcd_set_line\<close>, with \<open>len\<close> computed once before it.\<close>

function set_line_loop ::
  "i2clcd_ctx \<Rightarrow> uint8_t list \<Rightarrow> nat \<Rightarrow> nat \<Rightarrow> bus \<Rightarrow> i2clcd_err_t \<times> bus" where
  "set_line_loop ctx text len i w =
     (if i < unat (cols ctx) then
        (let c = (if i < len then text ! i else 0x20)
         in case i2clcd_data ctx c w of (ret, w1) \<Rightarrow>
              if ret < 0 then (I2CLCD_ERR_WRITE, w1) else set_line_loop ctx text len (i + 1) w1)
      else (I2CLCD_OK, w))"
  by pat_completeness auto
termination
  by (relation "measure (\<lambda>(ctx, text, len, i, w). unat (cols ctx) - i)") auto

declare set_line_loop.simps [simp del]

definition i2clcd_set_line ::
  "i2clcd_ctx option \<Rightarrow> uint8_t \<Rightarrow> uint8_t list option \<Rightarrow> bus
     \<Rightarrow> fault + (i2clcd_err_t \<times> bus)" where
  "i2clcd_set_line handle line text w =
     (case handle of
        None \<Rightarrow> Inr (I2CLCD_ERR_NOT_INIT, w)
      | Some ctx \<Rightarrow>
          (case text of
             None \<Rightarrow> Inr (I2CLCD_ERR_INVALID_ARG, w)
           | Some s \<Rightarrow>
               if line \<ge> rows ctx then Inr (I2CLCD_ERR_RANGE, w)
               else
                 (case i2clcd_set_cursor handle 0 line w of
                    Inl f \<Rightarrow> Inl f
                  | Inr (ret, w1) \<Rightarrow>
                      if ret \<noteq> I2CLCD_OK then Inr (ret, w1)
                      else Inr (set_line_loop ctx s (strlen s) 0 w1))))"

section \<open>Backlight control\<close>

definition i2clcd_backlight ::
  "i2clcd_ctx option \<Rightarrow> bool \<Rightarrow> bus \<Rightarrow> i2clcd_err_t \<times> i2clcd_ctx option \<times> bus" where
  "i2clcd_backlight handle on w =
     (case handle of
        None \<Rightarrow> (I2CLCD_ERR_NOT_INIT, None, w)
      | Some ctx \<Rightarrow>
          let ctx' = ctx\<lparr>backlight := on\<rparr>
          in case i2clcd_i2c_write_byte ctx' (if on then PCF8574_PIN_BL else 0) w of (ret, w1) \<Rightarrow>
               if ret < 0 then (I2CLCD_ERR_WRITE, Some ctx', w1)
               else (I2CLCD_OK, Some ctx', w1))"

text \<open>\<open>on\<close> tells whether the result pointer is non-null; the value stored through it
  is the second component.\<close>

definition i2clcd_backlight_get :: "i2clcd_ctx option \<Rightarrow> bool \<Rightarrow> i2clcd_err_t \<times> bool option" where
  "i2clcd_backlight_get handle on =
     (case handle of
        None \<Rightarrow> (I2CLCD_ERR_NOT_INIT, None)
      | Some ctx \<Rightarrow>
          if \<not> on then (I2CLCD_ERR_INVALID_ARG, None)
          else (I2CLCD_OK, Some (backlight ctx)))"

section \<open>Custom characters\<close>

text \<open>The loop over \<open>charmap[i]\<close>, \<open>i\<close> from its start value up to 7; a pattern shorter
  than the index is a read outside the caller's array.\<close>

function create_char_loop ::
  "i2clcd_ctx \<Rightarrow> uint8_t list \<Rightarrow> nat \<Rightarrow> bus \<Rightarrow> fault + (int \<times> bus)" where
  "create_char_loop ctx charmap i w =
     (if i < 8 then
        (if \<not> i < length charmap then Inl Out_of_bounds_read
         else case i2clcd_data ctx (charmap ! i) w of (ret, w1) \<Rightarrow>
           if ret < 0 then Inr (ret, w1) else create_char_loop ctx charmap (i + 1) w1)
      else Inr (0, w))"
  by pat_completeness auto
termination
  by (relation "measure (\<lambda>(ctx, charmap, i, w). 8 - i)") auto

declare create_char_loop.simps [simp del]

definition i2clcd_create_char ::
  "i2clcd_ctx option \<Rightarrow> uint8_t \<Rightarrow> uint8_t list option \<Rightarrow> bus
     \<Rightarrow> fault + (i2clcd_err_t \<times> bus)" where
  "i2clcd_create_char handle location charmap w =
     (case handle of
        None \<Rightarrow> Inr (I2CLCD_ERR_NOT_INIT, w)
      | Some ctx \<Rightarrow>
          (case charmap of
             None \<Rightarrow> Inr (I2CLCD_ERR_INVALID_ARG, w)
           | Some cm \<Rightarrow>
               if location > 7 then Inr (I2CLCD_ERR_RANGE, w)
               else
                 (case i2clcd_command ctx (HD44780_CMD_SET_CGRAM OR push_bit 3 location) w of
                    (ret, w1) \<Rightarrow>
                      if ret < 0 then Inr (I2CLCD_ERR_WRITE, w1)
                      else
                        (case create_char_loop ctx cm 0 w1 of
                           Inl f \<Rightarrow> Inl f
                         | Inr (ret', w2) \<Rightarrow>
                             if ret' < 0 then Inr (I2CLCD_ERR_WRITE, w2)
                             else
                               (case i2clcd_command ctx HD44780_CMD_SET_DDRAM w2 of
                                  (ret'', w3) \<Rightarrow>
                                    if ret'' < 0 then Inr (I2CLCD_ERR_WRITE, w3)
                                    else Inr (I2CLCD_OK, w3))))))"

section \<open>Utility functions\<close>

text \<open>The two booleans tell which of the result pointers are non-null.\<close>

definition i2clcd_get_size ::
  "i2clcd_ctx option \<Rightarrow> bool \<Rightarrow> bool \<Rightarrow> i2clcd_err_t \<times> uint8_t option \<times> uint8_t option" where
  "i2clcd_get_size handle cols_ptr rows_ptr =
     (case handle of
        None \<Rightarrow> (I2CLCD_ERR_NOT_INIT, None, None)
      | Some ctx \<Rightarrow>
          (I2CLCD_OK, (if cols_ptr then Some (cols ctx) else None),
                      (if rows_ptr then Some (rows ctx) else None)))"

section \<open>Concrete systems, buses and sessions\<close>

text \<open>A system on which opening succeeds, a bus that accepts every write and one that
  accepts none.\<close>

definition sys_ok :: sys where
  "sys_ok = \<lparr>calloc_ok = True, open_ret = 3, ioctl_ret = 0\<rparr>"

definition bus_up :: bus where
  "bus_up = \<lparr>trace = [], write_ret = (\<lambda>n. 1)\<rparr>"

definition bus_down :: bus where
  "bus_down = \<lparr>trace = [], write_ret = (\<lambda>n. - 1)\<rparr>"

definition cfg_preset :: "int \<Rightarrow> i2clcd_config_t" where
  "cfg_preset sz = \<lparr>cfg_i2c_device = ''/dev/i2c-1'', cfg_i2c_addr = 0x27, cfg_size = sz,
     cfg_cols = 20, cfg_rows = 4, cfg_backlight = True\<rparr>"

definition cfg_custom :: "uint8_t \<Rightarrow> uint8_t \<Rightarrow> i2clcd_config_t" where
  "cfg_custom c r = \<lparr>cfg_i2c_device = ''/dev/i2c-1'', cfg_i2c_addr = 0x27,
     cfg_size = I2CLCD_CUSTOM, cfg_cols = c, cfg_rows = r, cfg_backlight = True\<rparr>"

text \<open>The session \<open>i2clcd_open\<close> stores for \<open>c\<close> columns and \<open>r\<close> rows on \<open>sys_ok\<close>.\<close>

definition session :: "uint8_t \<Rightarrow> uint8_t \<Rightarrow> i2clcd_ctx" where
  "session c r = \<lparr>fd = 3, i2c_addr = 0x27, cols = c, rows = r, display_ctrl = 0x04,
     entry_mode = 0x02, backlight = True, line_addr = [0x00, 0x40, 0x14, 0x54]\<rparr>"

section \<open>Lemmas on the bus\<close>

lemma bus_writes_append: "bus_writes (xs @ ys) = bus_writes xs @ bus_writes ys"
  by (induction xs rule: bus_writes.induct) simp_all

lemma emit_emit: "emit (emit w xs) ys = emit w (xs @ ys)"
  by (simp add: emit_def)

lemma emit_Nil: "emit w [] = w"
  by (simp add: emit_def)

lemma trace_emit: "trace (emit w es) = trace w @ es"
  by (simp add: emit_def)

lemma bus_ok_emit: "bus_ok w n \<Longrightarrow> bus_ok (emit w es) (n - length (bus_writes es))"
  unfolding bus_ok_def
proof (intro allI impI)
  fix i
  assume ok: "\<forall>i<n. write_ret w (length (bus_writes (trace w)) + i) = 1"
    and i: "i < n - length (bus_writes es)"
  from i have "length (bus_writes es) + i < n" by simp
  with ok have "write_ret w (length (bus_writes (trace w)) + (length (bus_writes es) + i)) = 1"
    by blast
  then show "write_ret (emit w es) (length (bus_writes (trace (emit w es))) + i) = 1"
    by (simp add: emit_def bus_writes_append add.assoc)
qed

lemma bus_ok_emit_len:
  "bus_ok w n \<Longrightarrow> length (bus_writes es) = k \<Longrightarrow> bus_ok (emit w es) (n - k)"
  using bus_ok_emit by blast

lemma bus_ok_mono: "bus_ok w n \<Longrightarrow> m \<le> n \<Longrightarrow> bus_ok w m"
  by (simp add: bus_ok_def)

lemma delay_us_emit: "i2clcd_delay_us us w = emit w [Delay_us us]"
  by (simp add: i2clcd_delay_us_def emit_def)

lemma i2c_write_ok:
  assumes "bus_ok w n" and "1 \<le> n"
  shows "i2clcd_i2c_write_byte ctx b w = (0, emit w [Write b])"
proof -
  from assms have "write_ret w (length (bus_writes (trace w)) + 0) = 1"
    unfolding bus_ok_def by (metis less_eq_Suc_le One_nat_def)
  then show ?thesis
    by (simp add: i2clcd_i2c_write_byte_def emit_def Let_def)
qed

lemma write_nibble_ok:
  assumes ok: "bus_ok w n" and n: "2 \<le> n"
  shows "i2clcd_write_nibble ctx nib rs w = (0, emit w (nibble_events (backlight ctx) rs nib))"
proof -
  let ?d = "(nib AND 0xF0) OR pins (backlight ctx) rs"
  have d: "(let data0 = nib AND PCF8574_DATA_MASK;
                data1 = (if rs then data0 OR PCF8574_PIN_RS else data0)
            in (if backlight ctx then data1 OR PCF8574_PIN_BL else data1)) = ?d"
    by (simp add: PCF8574_DATA_MASK_def PCF8574_PIN_RS_def PCF8574_PIN_BL_def pins_def
        Let_def or.assoc)
  have w1: "i2clcd_i2c_write_byte ctx (?d OR 4) w = (0, emit w [Write (?d OR 4)])"
    using ok n by (intro i2c_write_ok [where n = n]) simp_all
  have ok1: "bus_ok (emit w [Write (?d OR 4), Delay_us 1]) (n - 1)"
    using ok by (rule bus_ok_emit_len) simp
  have w2: "i2clcd_i2c_write_byte ctx ?d (emit w [Write (?d OR 4), Delay_us 1])
              = (0, emit w [Write (?d OR 4), Delay_us 1, Write ?d])"
    using i2c_write_ok [OF ok1, of ctx ?d] n by (simp add: emit_emit)
  show ?thesis
    using d w1 w2
    by (simp add: i2clcd_write_nibble_def Let_def PCF8574_PIN_EN_def delay_us_emit emit_emit
        nibble_events_def HD44780_DELAY_ENABLE_US_def HD44780_DELAY_CMD_US_def or.assoc)
qed

lemma bus_writes_nibble_events [simp]:
  "bus_writes (nibble_events bl rs n) =
     [(n AND 0xF0) OR pins bl rs OR 4, (n AND 0xF0) OR pins bl rs]"
  by (simp add: nibble_events_def)

lemma bus_writes_byte_events [simp]: "bus_writes (byte_events bl rs b) = byte_frame bl rs b"
  by (simp add: byte_events_def byte_frame_def bus_writes_append and.assoc)

lemma length_byte_frame [simp]: "length (byte_frame bl rs b) = 4"
  by (simp add: byte_frame_def)

lemma write_byte_ok:
  assumes ok: "bus_ok w n" and n: "4 \<le> n"
  shows "i2clcd_write_byte ctx b rs w = (0, emit w (byte_events (backlight ctx) rs b))"
proof -
  have n1: "i2clcd_write_nibble ctx (b AND 0xF0) rs w
              = (0, emit w (nibble_events (backlight ctx) rs (b AND 0xF0)))"
    using ok n by (intro write_nibble_ok [where n = n]) simp_all
  have ok1: "bus_ok (emit w (nibble_events (backlight ctx) rs (b AND 0xF0))) (n - 2)"
    using ok by (rule bus_ok_emit_len) simp
  have n2: "i2clcd_write_nibble ctx (push_bit 4 b AND 0xF0) rs
              (emit w (nibble_events (backlight ctx) rs (b AND 0xF0)))
            = (0, emit w (nibble_events (backlight ctx) rs (b AND 0xF0)
                          @ nibble_events (backlight ctx) rs (push_bit 4 b AND 0xF0)))"
    using write_nibble_ok [OF ok1, of ctx "push_bit 4 b AND 0xF0" rs] n by (simp add: emit_emit)
  have same: "nibble_events (backlight ctx) rs (push_bit 4 b AND 0xF0)
                = nibble_events (backlight ctx) rs (push_bit 4 b)"
    by (simp add: nibble_events_def and.assoc)
  show ?thesis
    using n1 n2 same by (simp add: i2clcd_write_byte_def byte_events_def)
qed

lemma bus_ok_0 [simp]: "bus_ok w 0"
  by (simp add: bus_ok_def)

lemma bus_ok_Suc:
  "bus_ok w (Suc k) \<longleftrightarrow>
     write_ret w (length (bus_writes (trace w))) = 1 \<and> bus_ok (emit w [Write b]) k"
  by (auto simp add: bus_ok_def emit_def bus_writes_append less_Suc_eq_0_disj)

lemma bus_ok_delay [simp]: "bus_ok (emit w [Delay_us d]) k = bus_ok w k"
  by (simp add: bus_ok_def emit_def bus_writes_append)

lemma bus_ok_split:
  assumes "length (bus_writes es) = m"
  shows "bus_ok w (m + k) \<longleftrightarrow> bus_ok w m \<and> bus_ok (emit w es) k"
proof
  assume ok: "bus_ok w (m + k)"
  have "bus_ok w m" using ok by (rule bus_ok_mono) simp
  moreover have "bus_ok (emit w es) k"
    using bus_ok_emit_len [OF ok assms] by simp
  ultimately show "bus_ok w m \<and> bus_ok (emit w es) k" ..
next
  assume both: "bus_ok w m \<and> bus_ok (emit w es) k"
  show "bus_ok w (m + k)"
    unfolding bus_ok_def
  proof (intro allI impI)
    fix i assume i: "i < m + k"
    show "write_ret w (length (bus_writes (trace w)) + i) = 1"
    proof (cases "i < m")
      case True
      with both show ?thesis by (simp add: bus_ok_def)
    next
      case False
      then have lt: "i - m < k" and eq: "i = m + (i - m)" using i by simp_all
      from both have "\<forall>j<k. write_ret (emit w es) (length (bus_writes (trace (emit w es))) + j) = 1"
        by (simp add: bus_ok_def)
      with lt have "write_ret (emit w es) (length (bus_writes (trace (emit w es))) + (i - m)) = 1"
        by blast
      then have "write_ret w (length (bus_writes (trace w)) + (m + (i - m))) = 1"
        by (simp add: emit_def bus_writes_append assms add.assoc)
      with eq show ?thesis by simp
    qed
  qed
qed

lemma i2c_write_ret:
  "fst (i2clcd_i2c_write_byte ctx b w) = (if bus_ok w 1 then 0 else - 1)"
  by (simp add: i2clcd_i2c_write_byte_def Let_def bus_ok_def)

lemma write_nibble_ret:
  "fst (i2clcd_write_nibble ctx nib rs w) = (if bus_ok w 2 then 0 else - 1)"
proof -
  have two: "bus_ok w 2 \<longleftrightarrow> write_ret w (length (bus_writes (trace w))) = 1
      \<and> write_ret w (Suc (length (bus_writes (trace w)))) = 1"
    by (auto simp add: bus_ok_def less_Suc_eq_0_disj numeral_2_eq_2)
  show ?thesis
    by (simp add: two i2clcd_write_nibble_def i2clcd_i2c_write_byte_def i2clcd_delay_us_def
        Let_def bus_writes_append)
qed

lemma write_byte_ret:
  "fst (i2clcd_write_byte ctx b rs w) = (if bus_ok w 4 then 0 else - 1)"
proof (cases "bus_ok w 2")
  case True
  then have n1: "i2clcd_write_nibble ctx (b AND 0xF0) rs w
              = (0, emit w (nibble_events (backlight ctx) rs (b AND 0xF0)))"
    by (intro write_nibble_ok [where n = 2]) simp_all
  have "bus_ok w (2 + 2) \<longleftrightarrow> bus_ok w 2
      \<and> bus_ok (emit w (nibble_events (backlight ctx) rs (b AND 0xF0))) 2"
    by (rule bus_ok_split) simp
  with True have "bus_ok w 4 \<longleftrightarrow> bus_ok (emit w (nibble_events (backlight ctx) rs (b AND 0xF0))) 2"
    by simp
  then show ?thesis
    by (simp add: i2clcd_write_byte_def n1 write_nibble_ret)
next
  case False
  then have "\<not> bus_ok w 4"
    using bus_ok_mono [of w 4 2] by auto
  with False show ?thesis
    by (simp add: i2clcd_write_byte_def write_nibble_ret split_def)
qed

lemma bit_eight: "bit (8 :: uint8_t) k \<longleftrightarrow> k = 3"
proof -
  have "(8 :: uint8_t) = 2 ^ 3" by simp
  then show ?thesis by (simp only: bit_exp_iff possible_bit_word) auto
qed

lemma bit_pins: "bit (pins bl rs) k \<longleftrightarrow> (k = 0 \<and> rs \<or> k = 3 \<and> bl)"
  by (cases rs; cases bl)
    (simp_all only: pins_def bit_or_iff bit_eight bit_1_iff if_True if_False bit_0_eq, auto)

section \<open>Lemmas on opening and on the concrete values\<close>

lemmas const_defs =
  HD44780_CMD_CLEAR_def HD44780_CMD_HOME_def HD44780_CMD_ENTRY_MODE_def
  HD44780_CMD_DISPLAY_CTRL_def HD44780_CMD_FUNCTION_SET_def HD44780_CMD_SET_CGRAM_def
  HD44780_CMD_SET_DDRAM_def HD44780_ENTRY_INC_def HD44780_DISPLAY_ON_def HD44780_CURSOR_ON_def
  HD44780_BLINK_ON_def HD44780_4BIT_MODE_def HD44780_2LINE_def HD44780_5X8_DOTS_def
  HD44780_LINE0_ADDR_def HD44780_LINE1_ADDR_def HD44780_LINE2_ADDR_def HD44780_LINE3_ADDR_def
  HD44780_DELAY_CLEAR_US_def HD44780_DELAY_CMD_US_def HD44780_DELAY_ENABLE_US_def
  HD44780_DELAY_INIT_MS_def PCF8574_PIN_RS_def PCF8574_PIN_RW_def PCF8574_PIN_EN_def
  PCF8574_PIN_BL_def PCF8574_DATA_MASK_def I2CLCD_16X2_def I2CLCD_20X4_def I2CLCD_CUSTOM_def

lemma open_preset_16x2:
  "i2clcd_open sys_ok (Some (cfg_preset I2CLCD_16X2)) True = (I2CLCD_OK, Some (session 16 2))"
  by (simp add: i2clcd_open_def sys_ok_def cfg_preset_def session_def Let_def const_defs)

lemma open_preset_20x4:
  "i2clcd_open sys_ok (Some (cfg_preset I2CLCD_20X4)) True = (I2CLCD_OK, Some (session 20 4))"
  by (simp add: i2clcd_open_def sys_ok_def cfg_preset_def session_def Let_def const_defs)

lemma open_custom:
  "i2clcd_open sys_ok (Some (cfg_custom c r)) True = (I2CLCD_OK, Some (session c r))"
  by (simp add: i2clcd_open_def sys_ok_def cfg_custom_def session_def Let_def const_defs)

lemma open_Some:
  assumes "i2clcd_open os config handle = (e, Some ctx)"
  shows "e = I2CLCD_OK"
  using assms
  by (auto simp add: i2clcd_open_def Let_def split: option.splits if_splits)

lemma open_OK:
  assumes "fst (i2clcd_open os config handle) = I2CLCD_OK"
  shows "\<exists>ctx. snd (i2clcd_open os config handle) = Some ctx"
  using assms
  by (auto simp add: i2clcd_open_def Let_def split: option.splits if_splits)

lemma init_fst: "fst (i2clcd_init os config handle w) = fst (i2clcd_open os config handle)"
  by (auto simp add: i2clcd_init_def Let_def split: prod.splits option.splits dest: open_Some)

lemma init_dead_trace:
  "bus_writes (trace (snd (snd
      (i2clcd_init sys_ok (Some (cfg_preset I2CLCD_20X4)) True bus_down))))
     = [8, 60, 60, 60, 44, 44, 12, 12, 12]"
  by code_simp

lemma bus_down_not_ok: "0 < k \<Longrightarrow> \<not> bus_ok bus_down k"
  by (auto simp add: bus_ok_def bus_down_def)

lemma bus_up_ok: "bus_ok bus_up k"
  by (auto simp add: bus_ok_def bus_up_def)

lemmas write_defs =
  i2clcd_i2c_write_byte_def i2clcd_write_nibble_def i2clcd_write_byte_def i2clcd_command_def
  i2clcd_data_def i2clcd_update_display_ctrl_def i2clcd_delay_us_def i2clcd_delay_ms_def

lemma cursor_dead:
  "i2clcd_cursor (Some (session 16 2)) True bus_down
     = (I2CLCD_ERR_WRITE, Some ((session 16 2)\<lparr>display_ctrl := 0x06\<rparr>), emit bus_down [Write 0x0C])"
  by (simp add: i2clcd_cursor_def session_def bus_down_def write_defs Let_def
      const_defs emit_def)

lemma open_dims:
  assumes "i2clcd_open os (Some cfg) handle = (I2CLCD_OK, Some ctx)"
  shows "cfg_size cfg = I2CLCD_16X2 \<and> cols ctx = 16 \<and> rows ctx = 2
       \<or> cfg_size cfg = I2CLCD_20X4 \<and> cols ctx = 20 \<and> rows ctx = 4
       \<or> cfg_size cfg = I2CLCD_CUSTOM \<and> cols ctx = cfg_cols cfg \<and> rows ctx = cfg_rows cfg"
  using assms
  by (auto simp add: i2clcd_open_def Let_def split: if_splits)

lemma init_session:
  assumes "i2clcd_init os config handle w = (e, Some ctx, w')"
  shows "\<exists>ctx0. i2clcd_open os config handle = (e, Some ctx0)
      \<and> cols ctx = cols ctx0 \<and> rows ctx = rows ctx0 \<and> line_addr ctx = line_addr ctx0"
  using assms
  by (auto simp add: i2clcd_init_def Let_def split: prod.splits option.splits if_splits)

section \<open>Runs on a bus that accepts the writes\<close>

lemma delay_us_step: "i2clcd_delay_us us (emit w es) = emit w (es @ [Delay_us us])"
  by (simp add: delay_us_emit emit_emit)

lemma i2c_write_step:
  assumes "bus_ok w N" and "length (bus_writes es) + 1 \<le> N"
  shows "i2clcd_i2c_write_byte ctx b (emit w es) = (0, emit w (es @ [Write b]))"
proof -
  have "bus_ok (emit w es) (N - length (bus_writes es))"
    using assms(1) by (rule bus_ok_emit)
  then show ?thesis
    using assms(2) i2c_write_ok [of "emit w es" "N - length (bus_writes es)" ctx b]
    by (simp add: emit_emit)
qed

lemma write_nibble_step:
  assumes "bus_ok w N" and "length (bus_writes es) + 2 \<le> N"
  shows "i2clcd_write_nibble ctx n rs (emit w es)
           = (0, emit w (es @ nibble_events (backlight ctx) rs n))"
proof -
  have "bus_ok (emit w es) (N - length (bus_writes es))"
    using assms(1) by (rule bus_ok_emit)
  then show ?thesis
    using assms(2) write_nibble_ok [of "emit w es" "N - length (bus_writes es)" ctx n rs]
    by (simp add: emit_emit)
qed

lemma write_byte_step:
  assumes "bus_ok w N" and "length (bus_writes es) + 4 \<le> N"
  shows "i2clcd_write_byte ctx b rs (emit w es)
           = (0, emit w (es @ byte_events (backlight ctx) rs b))"
proof -
  have "bus_ok (emit w es) (N - length (bus_writes es))"
    using assms(1) by (rule bus_ok_emit)
  then show ?thesis
    using assms(2) write_byte_ok [of "emit w es" "N - length (bus_writes es)" ctx b rs]
    by (simp add: emit_emit)
qed

lemma init_trace:
  assumes op: "i2clcd_open os config handle = (I2CLCD_OK, Some ctx)" and ok: "bus_ok w 25"
  shows "i2clcd_init os config handle w =
     (I2CLCD_OK, Some (ctx\<lparr>display_ctrl := 0x04, entry_mode := 0x02\<rparr>),
      emit w ([Delay_us 50000, Write (if backlight ctx then 8 else 0), Delay_us 1000]
        @ nibble_events (backlight ctx) False 0x30 @ [Delay_us 5000]
        @ nibble_events (backlight ctx) False 0x30 @ [Delay_us 150]
        @ nibble_events (backlight ctx) False 0x30 @ [Delay_us 150]
        @ nibble_events (backlight ctx) False 0x20 @ [Delay_us 50]
        @ byte_events (backlight ctx) False 0x28
        @ byte_events (backlight ctx) False 0x08
        @ byte_events (backlight ctx) False 0x06
        @ byte_events (backlight ctx) False 0x0C))"
proof -
  have start: "i2clcd_delay_ms d w = emit w ([] @ [Delay_us (d * 1000)])" for d
    by (simp add: i2clcd_delay_ms_def delay_us_emit)
  have ms: "i2clcd_delay_ms d (emit w es) = emit w (es @ [Delay_us (d * 1000)])" for d es
    by (simp add: i2clcd_delay_ms_def delay_us_step)
  note steps = i2c_write_step [OF ok] write_nibble_step [OF ok] write_byte_step [OF ok]
  show ?thesis
    unfolding i2clcd_init_def op
    by (simp add: Let_def start ms delay_us_step steps i2clcd_command_def
        bus_writes_append const_defs)
qed

lemma clear_line_loop_step:
  assumes ok: "bus_ok w N"
  shows "length (bus_writes es) + 4 * (unat (cols ctx) - i) \<le> N \<Longrightarrow>
         clear_line_loop ctx i (emit w es)
           = (I2CLCD_OK, emit w (es @ concat (replicate (unat (cols ctx) - i)
                                               (byte_events (backlight ctx) True 0x20))))"
proof (induction "unat (cols ctx) - i" arbitrary: i es)
  case 0
  then show ?case by (subst clear_line_loop.simps) simp
next
  case (Suc k)
  then have lt: "i < unat (cols ctx)" and k: "k = unat (cols ctx) - (i + 1)"
    and d: "unat (cols ctx) - i = Suc (unat (cols ctx) - (i + 1))" by simp_all
  have room: "length (bus_writes es) + 4 \<le> N" using Suc.prems Suc.hyps(2) [symmetric] by simp
  have one: "i2clcd_data ctx 0x20 (emit w es)
               = (0, emit w (es @ byte_events (backlight ctx) True 0x20))"
    unfolding i2clcd_data_def using ok room by (rule write_byte_step)
  have rest: "length (bus_writes (es @ byte_events (backlight ctx) True 0x20))
                + 4 * (unat (cols ctx) - (i + 1)) \<le> N"
    using Suc.prems d by (simp add: bus_writes_append)
  show ?case
    using lt one Suc.hyps(1) [OF k rest] d
    by (subst clear_line_loop.simps) simp
qed

lemma set_line_loop_step:
  assumes ok: "bus_ok w N"
  shows "length (bus_writes es) + 4 * (unat (cols ctx) - i) \<le> N \<Longrightarrow>
         set_line_loop ctx s len i (emit w es)
           = (I2CLCD_OK, emit w (es @ concat (map (byte_events (backlight ctx) True)
                 (map (\<lambda>j. if j < len then s ! j else 0x20) [i..<unat (cols ctx)]))))"
proof (induction "unat (cols ctx) - i" arbitrary: i es)
  case 0
  then show ?case by (subst set_line_loop.simps) simp
next
  case (Suc k)
  then have lt: "i < unat (cols ctx)" and k: "k = unat (cols ctx) - (i + 1)"
    and d: "unat (cols ctx) - i = Suc (unat (cols ctx) - (i + 1))" by simp_all
  let ?c = "if i < len then s ! i else 0x20"
  have room: "length (bus_writes es) + 4 \<le> N" using Suc.prems Suc.hyps(2) [symmetric] by simp
  have one: "i2clcd_data ctx ?c (emit w es)
               = (0, emit w (es @ byte_events (backlight ctx) True ?c))"
    unfolding i2clcd_data_def using ok room by (rule write_byte_step)
  have rest: "length (bus_writes (es @ byte_events (backlight ctx) True ?c))
                + 4 * (unat (cols ctx) - (i + 1)) \<le> N"
    using Suc.prems d by (simp add: bus_writes_append)
  have up: "[i..<unat (cols ctx)] = i # [i + 1..<unat (cols ctx)]"
    using lt by (simp add: upt_conv_Cons)
  show ?case
    using lt one Suc.hyps(1) [OF k rest] up
    by (subst set_line_loop.simps) (simp add: Let_def)
qed

lemma create_char_loop_step:
  assumes ok: "bus_ok w N" and len: "8 \<le> length cm"
  shows "length (bus_writes es) + 4 * (8 - i) \<le> N \<Longrightarrow>
         create_char_loop ctx cm i (emit w es)
           = Inr (0, emit w (es @ concat (map (byte_events (backlight ctx) True)
                 (map (\<lambda>j. cm ! j) [i..<8]))))"
proof (induction "8 - i" arbitrary: i es)
  case 0
  then show ?case by (subst create_char_loop.simps) simp
next
  case (Suc k)
  then have lt: "i < 8" and k: "k = 8 - (i + 1)"
    and d: "8 - i = Suc (8 - (i + 1))" by simp_all
  have room: "length (bus_writes es) + 4 \<le> N" using Suc.prems Suc.hyps(2) [symmetric] by simp
  have one: "i2clcd_data ctx (cm ! i) (emit w es)
               = (0, emit w (es @ byte_events (backlight ctx) True (cm ! i)))"
    unfolding i2clcd_data_def using ok room by (rule write_byte_step)
  have rest: "length (bus_writes (es @ byte_events (backlight ctx) True (cm ! i)))
                + 4 * (8 - (i + 1)) \<le> N"
    using Suc.prems d by (simp add: bus_writes_append)
  have up: "[i..<8] = i # [i + 1..<8]"
    using lt by (simp add: upt_conv_Cons)
  show ?case
    using lt len one Suc.hyps(1) [OF k rest] up
    by (subst create_char_loop.simps) simp
qed

lemma set_cursor_run:
  assumes "row < rows ctx" and "col < cols ctx" and "unat row < length (line_addr ctx)"
    and ok: "bus_ok w N" and room: "length (bus_writes es) + 4 \<le> N"
  shows "i2clcd_set_cursor (Some ctx) col row (emit w es)
           = Inr (I2CLCD_OK, emit w (es @ byte_events (backlight ctx) False
                                            (0x80 OR (line_addr ctx ! unat row + col))))"
  using assms(1-3) write_byte_step [OF ok room]
  by (simp add: i2clcd_set_cursor_def i2clcd_command_def Let_def HD44780_CMD_SET_DDRAM_def
      not_le [symmetric])

lemma set_cursor_range:
  assumes "rows ctx \<le> row \<or> cols ctx \<le> col"
  shows "i2clcd_set_cursor (Some ctx) col row w = Inr (I2CLCD_ERR_RANGE, w)"
  using assms by (simp add: i2clcd_set_cursor_def)

lemma set_cursor_fault:
  assumes "row < rows ctx" and "col < cols ctx" and "\<not> unat row < length (line_addr ctx)"
  shows "i2clcd_set_cursor (Some ctx) col row w = Inl Out_of_bounds_read"
  using assms by (simp add: i2clcd_set_cursor_def not_le [symmetric])

lemma bus_writes_concat_bytes:
  "bus_writes (concat (map (byte_events bl rs) bs)) = concat (map (byte_frame bl rs) bs)"
  by (induction bs) (simp_all add: bus_writes_append)

lemma length_concat_frames: "length (concat (map (byte_frame bl rs) bs)) = 4 * length bs"
  by (induction bs) simp_all

lemma strlen_no_nul: "0 \<notin> set s \<Longrightarrow> strlen s = length s"
  by (induction s) (auto simp add: strlen_def)

lemma set_line_run:
  assumes line: "line < rows ctx" and cols: "0 < cols ctx"
    and tab: "unat line < length (line_addr ctx)"
    and ok: "bus_ok w (4 + 4 * unat (cols ctx))"
  shows "i2clcd_set_line (Some ctx) line (Some s) w
     = Inr (I2CLCD_OK,
            emit w (byte_events (backlight ctx) False (0x80 OR line_addr ctx ! unat line)
                    @ concat (map (byte_events (backlight ctx) True)
                        (map (\<lambda>i. if i < strlen s then s ! i else 0x20)
                             [0..<unat (cols ctx)]))))"
proof -
  have cur: "i2clcd_set_cursor (Some ctx) 0 line w
      = Inr (I2CLCD_OK, emit w (byte_events (backlight ctx) False (0x80 OR line_addr ctx ! unat line)))"
    using set_cursor_run [OF line cols tab ok, of "[]"] by (simp add: emit_Nil)
  have loop: "set_line_loop ctx s (strlen s) 0
        (emit w (byte_events (backlight ctx) False (0x80 OR line_addr ctx ! unat line)))
      = (I2CLCD_OK,
         emit w (byte_events (backlight ctx) False (0x80 OR line_addr ctx ! unat line)
                 @ concat (map (byte_events (backlight ctx) True)
                     (map (\<lambda>i. if i < strlen s then s ! i else 0x20) [0..<unat (cols ctx)]))))"
    using set_line_loop_step [OF ok, of "byte_events (backlight ctx) False (0x80 OR line_addr ctx ! unat line)" ctx 0 s "strlen s"]
    by simp
  show ?thesis
    using line by (simp add: i2clcd_set_line_def cur loop not_le [symmetric])
qed

lemma create_char_run:
  assumes loc: "location \<le> 7" and len: "length cm = 8" and ok: "bus_ok w 40"
  shows "i2clcd_create_char (Some ctx) location (Some cm) w
     = Inr (I2CLCD_OK,
            emit w (byte_events (backlight ctx) False (0x40 OR push_bit 3 location)
                    @ concat (map (byte_events (backlight ctx) True) cm)
                    @ byte_events (backlight ctx) False 0x80))"
proof -
  let ?a = "byte_events (backlight ctx) False (0x40 OR push_bit 3 location)"
  let ?d = "concat (map (byte_events (backlight ctx) True) cm)"
  have all: "map (\<lambda>j. cm ! j) [0..<8] = cm"
    using map_nth [of cm] len by simp
  have s1: "i2clcd_command ctx (HD44780_CMD_SET_CGRAM OR push_bit 3 location) w = (0, emit w ?a)"
    using write_byte_step [OF ok, of "[]" ctx _ False]
    by (simp add: i2clcd_command_def emit_Nil HD44780_CMD_SET_CGRAM_def)
  have s2: "create_char_loop ctx cm 0 (emit w ?a) = Inr (0, emit w (?a @ ?d))"
    using create_char_loop_step [OF ok, of cm ?a 0 ctx] len all by simp
  have s3: "i2clcd_command ctx HD44780_CMD_SET_DDRAM (emit w (?a @ ?d))
      = (0, emit w ((?a @ ?d) @ byte_events (backlight ctx) False 0x80))"
    unfolding i2clcd_command_def HD44780_CMD_SET_DDRAM_def
    using ok
    by (rule write_byte_step)
      (simp add: bus_writes_append bus_writes_concat_bytes length_concat_frames len)
  show ?thesis
    using loc by (simp add: i2clcd_create_char_def s1 s2 s3 not_le [symmetric])
qed

lemma bit_pow2: "n < 8 \<Longrightarrow> bit (2 ^ n :: uint8_t) k \<longleftrightarrow> k = n"
  by (simp only: bit_exp_iff possible_bit_word) auto

lemma bit_with_flag:
  assumes "n < 8"
  shows "bit (with_flag n on d) k \<longleftrightarrow> (if k = n then on else bit d k)"
proof (cases on)
  case True
  then show ?thesis
    using assms by (simp only: with_flag_def if_True bit_or_iff bit_pow2) auto
next
  case False
  have b: "bit (d AND NOT (2 ^ n)) k \<longleftrightarrow> bit d k \<and> k \<noteq> n"
    using assms by (simp only: bit_and_iff bit_not_iff bit_pow2) (auto dest: bit_imp_le_length)
  from False have f: "with_flag n on d = d AND NOT (2 ^ n)"
    by (simp only: with_flag_def if_False)
  show ?thesis
    unfolding f b using False by auto
qed

lemma toggle_run:
  assumes ok: "bus_ok w N" and room: "length (bus_writes es) + 4 \<le> N"
  shows "i2clcd_update_display_ctrl ctx (emit w es)
           = (0, emit w (es @ byte_events (backlight ctx) False (0x08 OR display_ctrl ctx)))"
  using write_byte_step [OF ok room]
  by (simp add: i2clcd_update_display_ctrl_def i2clcd_command_def HD44780_CMD_DISPLAY_CTRL_def)

lemma display_run:
  assumes ok: "bus_ok w N" and room: "length (bus_writes es) + 4 \<le> N"
  shows "i2clcd_display (Some ctx) on (emit w es)
     = (I2CLCD_OK, Some (ctx\<lparr>display_ctrl := with_flag 2 on (display_ctrl ctx)\<rparr>),
        emit w (es @ byte_events (backlight ctx) False
                       (0x08 OR with_flag 2 on (display_ctrl ctx))))"
  by (cases on)
    (simp_all add: i2clcd_display_def toggle_run [OF ok room] HD44780_DISPLAY_ON_def
      with_flag_def)

lemma cursor_run:
  assumes ok: "bus_ok w N" and room: "length (bus_writes es) + 4 \<le> N"
  shows "i2clcd_cursor (Some ctx) on (emit w es)
     = (I2CLCD_OK, Some (ctx\<lparr>display_ctrl := with_flag 1 on (display_ctrl ctx)\<rparr>),
        emit w (es @ byte_events (backlight ctx) False
                       (0x08 OR with_flag 1 on (display_ctrl ctx))))"
  by (cases on)
    (simp_all add: i2clcd_cursor_def toggle_run [OF ok room] HD44780_CURSOR_ON_def
      with_flag_def)

lemma blink_run:
  assumes ok: "bus_ok w N" and room: "length (bus_writes es) + 4 \<le> N"
  shows "i2clcd_blink (Some ctx) on (emit w es)
     = (I2CLCD_OK, Some (ctx\<lparr>display_ctrl := with_flag 0 on (display_ctrl ctx)\<rparr>),
        emit w (es @ byte_events (backlight ctx) False
                       (0x08 OR with_flag 0 on (display_ctrl ctx))))"
  by (cases on)
    (simp_all add: i2clcd_blink_def toggle_run [OF ok room] HD44780_BLINK_ON_def
      with_flag_def)

lemma open_table:
  assumes "i2clcd_open os config handle = (I2CLCD_OK, Some ctx)"
  shows "line_addr ctx = [0x00, 0x40, 0x14, 0x54]"
  using assms
  by (auto simp add: i2clcd_open_def Let_def HD44780_LINE0_ADDR_def HD44780_LINE1_ADDR_def
      HD44780_LINE2_ADDR_def HD44780_LINE3_ADDR_def split: option.splits if_splits)

section \<open>The byte transmitter on the wire\<close>

text \<open>
  C5. For every byte \<open>b\<close>, register-select flag \<open>rs\<close> and backlight flag of the session,
  \<open>i2clcd_write_byte\<close> on a bus whose next four writes succeed returns 0 and hands to the
  bus exactly four bytes, in this order: the high nibble with enable set, the same word
  with enable cleared, the low nibble (shifted up) with enable set, the same word with
  enable cleared. In each word bit 0 is \<open>rs\<close>, bit 1 is clear, bit 2 is enable and bit 3 is
  the backlight.
\<close>

theorem write_byte_four_writes:
  assumes "bus_ok w 4"
  shows "fst (i2clcd_write_byte ctx b rs w) = 0
       \<and> bus_writes (trace (snd (i2clcd_write_byte ctx b rs w)))
           = bus_writes (trace w) @
             [(b AND 0xF0) OR pins (backlight ctx) rs OR 4,
              (b AND 0xF0) OR pins (backlight ctx) rs,
              (push_bit 4 b AND 0xF0) OR pins (backlight ctx) rs OR 4,
              (push_bit 4 b AND 0xF0) OR pins (backlight ctx) rs]
       \<and> (\<forall>k. bit (pins (backlight ctx) rs) k \<longleftrightarrow> (k = 0 \<and> rs \<or> k = 3 \<and> backlight ctx))"
proof -
  have run: "i2clcd_write_byte ctx b rs w = (0, emit w (byte_events (backlight ctx) rs b))"
    using assms by (intro write_byte_ok [where n = 4]) simp_all
  show ?thesis
    by (simp add: run trace_emit bus_writes_append byte_frame_def bit_pins)
qed

theorem write_byte_four_writes_witness:
  "bus_ok bus_up 4
   \<and> fst (i2clcd_write_byte (session 16 2) 0x41 True bus_up) = 0
   \<and> bus_writes (trace (snd (i2clcd_write_byte (session 16 2) 0x41 True bus_up)))
       = [0x4D, 0x49, 0x1D, 0x19]"
proof -
  have h: "bus_ok bus_up 4"
    by (simp add: bus_ok_def bus_up_def)
  show ?thesis
    using h write_byte_four_writes [where w = bus_up and ctx = "session 16 2" and b = "0x41"
        and rs = True]
    by (simp add: session_def pins_def bus_up_def)
qed

section \<open>Failures during initialisation\<close>

text \<open>
  C1. The claim: when a bus write fails during \<open>i2clcd_init\<close>, after the connection
  has been opened, the failure is returned as an error value. Evaluated on a system
  where opening succeeds and a bus that refuses every write, \<open>i2clcd_init\<close> returns
  \<open>I2CLCD_OK\<close>, after nine attempts to write: each nibble stops at its refused
  enable-high write and each command at its first nibble, and the sequence goes on.
\<close>

theorem init_ok_on_dead_bus:
  "i2clcd_open sys_ok (Some (cfg_preset I2CLCD_20X4)) True = (I2CLCD_OK, Some (session 20 4))
   \<and> write_ret bus_down = (\<lambda>n. - 1)
   \<and> fst (i2clcd_init sys_ok (Some (cfg_preset I2CLCD_20X4)) True bus_down) = I2CLCD_OK
   \<and> bus_writes (trace (snd (snd
         (i2clcd_init sys_ok (Some (cfg_preset I2CLCD_20X4)) True bus_down))))
       = [8, 60, 60, 60, 44, 44, 12, 12, 12]"
proof -
  have "write_ret bus_down = (\<lambda>n. - 1)"
    by (simp add: bus_down_def)
  then show ?thesis
    by (simp add: open_preset_20x4 init_fst init_dead_trace)
qed

section \<open>Dimensions of a session\<close>

text \<open>
  C2, as stated, at an explicit input: \<open>i2clcd_open\<close> accepts a custom configuration of
  0 columns and 5 rows and stores these dimensions in the session.
\<close>

theorem open_custom_unchecked:
  "i2clcd_open sys_ok (Some (cfg_custom 0 5)) True = (I2CLCD_OK, Some (session 0 5))
   \<and> cols (session 0 5) = 0 \<and> rows (session 0 5) = 5 \<and> \<not> rows (session 0 5) \<le> 4"
  by (simp add: open_custom) (simp add: session_def)

text \<open>
  C2, amended. A session returned with \<open>I2CLCD_OK\<close> by \<open>i2clcd_open\<close> or \<open>i2clcd_init\<close>
  has 16 columns and 2 rows for \<open>I2CLCD_16X2\<close>, 20 columns and 4 rows for
  \<open>I2CLCD_20X4\<close>, and for \<open>I2CLCD_CUSTOM\<close> the columns and rows of the configuration,
  unchecked. So columns > 0, rows > 0 and rows \<le> 4 hold for the presets, and for a custom
  size exactly when the caller's values satisfy them.
\<close>

theorem session_dimensions:
  assumes "i2clcd_open os (Some cfg) handle = (I2CLCD_OK, Some ctx)
         \<or> i2clcd_init os (Some cfg) handle w = (I2CLCD_OK, Some ctx, w')"
  shows "(cfg_size cfg = I2CLCD_16X2 \<and> cols ctx = 16 \<and> rows ctx = 2
          \<or> cfg_size cfg = I2CLCD_20X4 \<and> cols ctx = 20 \<and> rows ctx = 4
          \<or> cfg_size cfg = I2CLCD_CUSTOM \<and> cols ctx = cfg_cols cfg \<and> rows ctx = cfg_rows cfg)
       \<and> ((0 < cols ctx \<and> 0 < rows ctx \<and> rows ctx \<le> 4) \<longleftrightarrow>
            (cfg_size cfg = I2CLCD_CUSTOM \<longrightarrow>
               0 < cfg_cols cfg \<and> 0 < cfg_rows cfg \<and> cfg_rows cfg \<le> 4))"
proof -
  from assms obtain ctx0 where o: "i2clcd_open os (Some cfg) handle = (I2CLCD_OK, Some ctx0)"
    and c: "cols ctx = cols ctx0" and r: "rows ctx = rows ctx0"
    using init_session by blast
  from open_dims [OF o] c r
  have d: "cfg_size cfg = I2CLCD_16X2 \<and> cols ctx = 16 \<and> rows ctx = 2
          \<or> cfg_size cfg = I2CLCD_20X4 \<and> cols ctx = 20 \<and> rows ctx = 4
          \<or> cfg_size cfg = I2CLCD_CUSTOM \<and> cols ctx = cfg_cols cfg \<and> rows ctx = cfg_rows cfg"
    by simp
  then show ?thesis
    by (auto simp add: I2CLCD_16X2_def I2CLCD_20X4_def I2CLCD_CUSTOM_def)
qed

theorem session_dimensions_witness:
  "i2clcd_open sys_ok (Some (cfg_custom 16 2)) True = (I2CLCD_OK, Some (session 16 2))
   \<and> cols (session 16 2) = cfg_cols (cfg_custom 16 2)
   \<and> rows (session 16 2) = cfg_rows (cfg_custom 16 2)
   \<and> 0 < cols (session 16 2) \<and> 0 < rows (session 16 2) \<and> rows (session 16 2) \<le> 4"
proof -
  have h: "i2clcd_open sys_ok (Some (cfg_custom 16 2)) True = (I2CLCD_OK, Some (session 16 2))
         \<or> i2clcd_init sys_ok (Some (cfg_custom 16 2)) True bus_up
              = (I2CLCD_OK, Some (session 16 2), bus_up)"
    by (simp add: open_custom)
  show ?thesis
    using session_dimensions [OF h] open_custom [of 16 2]
    by (simp add: cfg_custom_def I2CLCD_16X2_def I2CLCD_20X4_def I2CLCD_CUSTOM_def)
qed

section \<open>Recorded flags when the transmission fails\<close>

text \<open>
  C3, as stated, at an explicit input: on a bus that refuses every write,
  \<open>i2clcd_cursor\<close> returns \<open>I2CLCD_ERR_WRITE\<close> and the recorded display-control byte
  has changed from 0x04 to 0x06.
\<close>

theorem cursor_failure_changes_flag:
  "write_ret bus_down = (\<lambda>n. - 1)
   \<and> display_ctrl (session 16 2) = 0x04
   \<and> i2clcd_cursor (Some (session 16 2)) True bus_down
       = (I2CLCD_ERR_WRITE, Some ((session 16 2)\<lparr>display_ctrl := 0x06\<rparr>),
          emit bus_down [Write 0x0C])
   \<and> (session 16 2)\<lparr>display_ctrl := 0x06\<rparr> \<noteq> session 16 2"
  by (simp add: cursor_dead) (simp add: session_def bus_down_def)

text \<open>
  C3, amended. When the transmission fails (one of the next four bus writes for
  \<open>i2clcd_display\<close>, \<open>i2clcd_cursor\<close> and \<open>i2clcd_blink\<close>, the next bus write for
  \<open>i2clcd_backlight\<close>), the operation returns \<open>I2CLCD_ERR_WRITE\<close> and the session
  records the requested flag: the bit is set or cleared in \<open>display_ctrl\<close>, and
  \<open>backlight\<close> is the requested value; nothing else in the session changes.
\<close>

theorem toggle_failure_state:
  "(\<not> bus_ok w 4 \<longrightarrow>
      fst (i2clcd_display (Some ctx) on w) = I2CLCD_ERR_WRITE
    \<and> fst (snd (i2clcd_display (Some ctx) on w))
        = Some (ctx\<lparr>display_ctrl := (if on then display_ctrl ctx OR 0x04
                                      else display_ctrl ctx AND NOT 0x04)\<rparr>)
    \<and> fst (i2clcd_cursor (Some ctx) on w) = I2CLCD_ERR_WRITE
    \<and> fst (snd (i2clcd_cursor (Some ctx) on w))
        = Some (ctx\<lparr>display_ctrl := (if on then display_ctrl ctx OR 0x02
                                      else display_ctrl ctx AND NOT 0x02)\<rparr>)
    \<and> fst (i2clcd_blink (Some ctx) on w) = I2CLCD_ERR_WRITE
    \<and> fst (snd (i2clcd_blink (Some ctx) on w))
        = Some (ctx\<lparr>display_ctrl := (if on then display_ctrl ctx OR 0x01
                                      else display_ctrl ctx AND NOT 0x01)\<rparr>))
   \<and> (\<not> bus_ok w 1 \<longrightarrow>
      fst (i2clcd_backlight (Some ctx) on w) = I2CLCD_ERR_WRITE
    \<and> fst (snd (i2clcd_backlight (Some ctx) on w)) = Some (ctx\<lparr>backlight := on\<rparr>))"
proof -
  have upd: "fst (i2clcd_update_display_ctrl c w) = - 1" if "\<not> bus_ok w 4" for c
    using that by (simp add: i2clcd_update_display_ctrl_def i2clcd_command_def write_byte_ret)
  have raw: "fst (i2clcd_i2c_write_byte c b w) = - 1" if "\<not> bus_ok w 1" for c b
    using that by (simp add: i2c_write_ret)
  show ?thesis
    by (auto simp add: i2clcd_display_def i2clcd_cursor_def i2clcd_blink_def i2clcd_backlight_def
        Let_def split_def upd raw HD44780_DISPLAY_ON_def HD44780_CURSOR_ON_def
        HD44780_BLINK_ON_def)
qed

theorem toggle_failure_state_witness:
  "\<not> bus_ok bus_down 4 \<and> \<not> bus_ok bus_down 1
   \<and> fst (i2clcd_display (Some (session 16 2)) False bus_down) = I2CLCD_ERR_WRITE
   \<and> fst (snd (i2clcd_display (Some (session 16 2)) False bus_down))
       = Some ((session 16 2)\<lparr>display_ctrl := 0\<rparr>)
   \<and> fst (i2clcd_backlight (Some (session 16 2)) False bus_down) = I2CLCD_ERR_WRITE
   \<and> fst (snd (i2clcd_backlight (Some (session 16 2)) False bus_down))
       = Some ((session 16 2)\<lparr>backlight := False\<rparr>)"
proof -
  have h4: "\<not> bus_ok bus_down 4" and h1: "\<not> bus_ok bus_down 1"
    by (simp_all add: bus_down_not_ok)
  show ?thesis
    using h4 h1 toggle_failure_state [where w = bus_down and ctx = "session 16 2" and on = False]
    by (simp add: session_def)
qed

section \<open>The initialisation sequence\<close>

text \<open>
  C4. When opening succeeds and the bus accepts the 25 writes, \<open>i2clcd_init\<close> returns
  \<open>I2CLCD_OK\<close> and, after the power-on delay of 50 ms, issues exactly: one raw write of
  the backlight bit alone (enable low); three times the nibble 0x30, each as a write
  with enable high followed by the same word with enable low; once the nibble 0x20 in
  the same way; then the four commands 0x28 (function set: 4-bit, 2 lines, 5x8), 0x08
  (display off), 0x06 (entry mode: increment, no shift) and 0x0C (display on), each as
  a full byte. The second conjunct gives the delays between the writes as well.
\<close>

theorem init_sequence:
  assumes "i2clcd_open os config handle = (I2CLCD_OK, Some ctx)" and "bus_ok w 25"
  shows "fst (i2clcd_init os config handle w) = I2CLCD_OK
     \<and> trace (snd (snd (i2clcd_init os config handle w)))
         = trace w
           @ [Delay_us 50000, Write (if backlight ctx then 8 else 0), Delay_us 1000]
           @ nibble_events (backlight ctx) False 0x30 @ [Delay_us 5000]
           @ nibble_events (backlight ctx) False 0x30 @ [Delay_us 150]
           @ nibble_events (backlight ctx) False 0x30 @ [Delay_us 150]
           @ nibble_events (backlight ctx) False 0x20 @ [Delay_us 50]
           @ byte_events (backlight ctx) False 0x28
           @ byte_events (backlight ctx) False 0x08
           @ byte_events (backlight ctx) False 0x06
           @ byte_events (backlight ctx) False 0x0C
     \<and> bus_writes (trace (snd (snd (i2clcd_init os config handle w))))
         = bus_writes (trace w)
           @ [if backlight ctx then 8 else 0]
           @ [0x30 OR pins (backlight ctx) False OR 4, 0x30 OR pins (backlight ctx) False]
           @ [0x30 OR pins (backlight ctx) False OR 4, 0x30 OR pins (backlight ctx) False]
           @ [0x30 OR pins (backlight ctx) False OR 4, 0x30 OR pins (backlight ctx) False]
           @ [0x20 OR pins (backlight ctx) False OR 4, 0x20 OR pins (backlight ctx) False]
           @ byte_frame (backlight ctx) False 0x28
           @ byte_frame (backlight ctx) False 0x08
           @ byte_frame (backlight ctx) False 0x06
           @ byte_frame (backlight ctx) False 0x0C"
  by (simp add: init_trace [OF assms] trace_emit bus_writes_append)

theorem init_sequence_witness:
  "i2clcd_open sys_ok (Some (cfg_preset I2CLCD_20X4)) True = (I2CLCD_OK, Some (session 20 4))
   \<and> bus_ok bus_up 25
   \<and> bus_writes (trace (snd (snd (i2clcd_init sys_ok (Some (cfg_preset I2CLCD_20X4)) True bus_up))))
       = [8, 60, 56, 60, 56, 60, 56, 44, 40,
          44, 40, 140, 136, 12, 8, 140, 136, 12, 8, 108, 104, 12, 8, 204, 200]"
proof -
  have h: "i2clcd_open sys_ok (Some (cfg_preset I2CLCD_20X4)) True = (I2CLCD_OK, Some (session 20 4))"
    by (rule open_preset_20x4)
  have k: "bus_ok bus_up 25"
    by (rule bus_up_ok)
  have t: "trace bus_up = []" and b: "backlight (session 20 4)"
    by (simp_all add: bus_up_def session_def)
  show ?thesis
    using h k init_sequence [OF h k]
    by (simp add: t b byte_frame_def pins_def bus_writes_append)
qed

section \<open>Addressing\<close>

text \<open>
  Inside the table: \<open>i2clcd_set_cursor\<close> with \<open>row < rows\<close>, \<open>col < cols\<close> and the row
  within the entries of \<open>line_addr\<close>, on a bus that accepts the four writes, returns
  \<open>I2CLCD_OK\<close> and sends the command byte \<open>0x80 OR (line_addr[row] + col)\<close> as one full
  byte; with \<open>row \<ge> rows\<close> or \<open>col \<ge> cols\<close> it returns \<open>I2CLCD_ERR_RANGE\<close> and leaves
  the bus as it was, and so does \<open>i2clcd_clear_line\<close> with \<open>line \<ge> rows\<close>.
\<close>

lemma set_cursor_addressing:
  "(row < rows ctx \<and> col < cols ctx \<and> unat row < length (line_addr ctx) \<and> bus_ok w 4 \<longrightarrow>
      i2clcd_set_cursor (Some ctx) col row w
        = Inr (I2CLCD_OK, emit w (byte_events (backlight ctx) False
                                     (0x80 OR (line_addr ctx ! unat row + col))))
    \<and> bus_writes (trace (emit w (byte_events (backlight ctx) False
                                     (0x80 OR (line_addr ctx ! unat row + col)))))
        = bus_writes (trace w)
          @ byte_frame (backlight ctx) False (0x80 OR (line_addr ctx ! unat row + col)))
   \<and> (rows ctx \<le> row \<or> cols ctx \<le> col \<longrightarrow>
        i2clcd_set_cursor (Some ctx) col row w = Inr (I2CLCD_ERR_RANGE, w))
   \<and> (rows ctx \<le> line \<longrightarrow>
        i2clcd_clear_line (Some ctx) line w = Inr (I2CLCD_ERR_RANGE, w))"
proof -
  have a: "i2clcd_set_cursor (Some ctx) col row w
        = Inr (I2CLCD_OK, emit w (byte_events (backlight ctx) False
                                     (0x80 OR (line_addr ctx ! unat row + col))))"
    if "row < rows ctx" "col < cols ctx" "unat row < length (line_addr ctx)" "bus_ok w 4"
    using set_cursor_run [OF that, of "[]"] by (simp add: emit_Nil)
  have c: "i2clcd_clear_line (Some ctx) line w = Inr (I2CLCD_ERR_RANGE, w)" if "rows ctx \<le> line"
    using that by (simp add: i2clcd_clear_line_def)
  show ?thesis
    using a c by (simp add: set_cursor_range trace_emit bus_writes_append)
qed

lemma set_cursor_addressing_instance:
  "(2 :: uint8_t) < rows (session 20 4) \<and> (3 :: uint8_t) < cols (session 20 4)
   \<and> unat (2 :: uint8_t) < length (line_addr (session 20 4)) \<and> bus_ok bus_up 4
   \<and> i2clcd_set_cursor (Some (session 20 4)) 3 2 bus_up
       = Inr (I2CLCD_OK, emit bus_up (byte_events True False 0x97))
   \<and> bus_writes (trace (emit bus_up (byte_events True False 0x97))) = [0x9C, 0x98, 0x7C, 0x78]
   \<and> rows (session 20 4) \<le> 4
   \<and> i2clcd_set_cursor (Some (session 20 4)) 3 4 bus_up = Inr (I2CLCD_ERR_RANGE, bus_up)
   \<and> i2clcd_clear_line (Some (session 20 4)) 4 bus_up = Inr (I2CLCD_ERR_RANGE, bus_up)"
proof -
  have v: "rows (session 20 4) = 4" "cols (session 20 4) = 20" "backlight (session 20 4)"
    "line_addr (session 20 4) = [0x00, 0x40, 0x14, 0x54]"
    by (simp_all add: session_def)
  have t: "trace bus_up = []"
    by (simp add: bus_up_def)
  show ?thesis
    using set_cursor_addressing [where ctx = "session 20 4" and col = 3 and row = 2
        and w = bus_up and line = 4]
      set_cursor_addressing [where ctx = "session 20 4" and col = 3 and row = 4
        and w = bus_up and line = 4]
    by (simp add: v t bus_up_ok byte_frame_def pins_def)
qed

text \<open>
  C6. The claim: \<open>i2clcd_set_cursor\<close> with \<open>row < rows\<close> and \<open>col < cols\<close> sends the
  address \<open>row_base_address[row] + col\<close>. Evaluated on the session of 16 columns and 5
  rows that \<open>i2clcd_open\<close> returns for a custom configuration, with column 0 and row 4:
  both range checks pass, and the source goes on to read \<open>line_addr[4]\<close>, past the four
  entries of the table. The check of the row against \<open>rows\<close> is the only guard of that
  index, and it does not keep the read inside the array.
\<close>

theorem set_cursor_past_table:
  "i2clcd_open sys_ok (Some (cfg_custom 16 5)) True = (I2CLCD_OK, Some (session 16 5))
   \<and> (4 :: uint8_t) < rows (session 16 5) \<and> (0 :: uint8_t) < cols (session 16 5)
   \<and> i2clcd_set_cursor (Some (session 16 5)) 0 4 bus_up = Inl Out_of_bounds_read"
proof -
  have v: "rows (session 16 5) = 5" "cols (session 16 5) = 16"
    "line_addr (session 16 5) = [0x00, 0x40, 0x14, 0x54]"
    by (simp_all add: session_def)
  have "i2clcd_set_cursor (Some (session 16 5)) 0 4 bus_up = Inl Out_of_bounds_read"
    by (rule set_cursor_fault) (simp_all add: v)
  then show ?thesis
    by (simp add: open_custom v)
qed

section \<open>Setting a line\<close>

text \<open>
  C7, as stated, at an explicit input: \<open>i2clcd_open\<close> returns a session of 0 columns and
  2 rows for a custom configuration; on it \<open>i2clcd_set_line\<close> with the valid line 0 does
  not reposition: the column check of \<open>i2clcd_set_cursor\<close> fails for column 0, and the
  result is \<open>I2CLCD_ERR_RANGE\<close> with the bus untouched.
\<close>

theorem set_line_zero_columns:
  "i2clcd_open sys_ok (Some (cfg_custom 0 2)) True = (I2CLCD_OK, Some (session 0 2))
   \<and> (0 :: uint8_t) < rows (session 0 2)
   \<and> i2clcd_set_line (Some (session 0 2)) 0 (Some [0x41]) bus_up
       = Inr (I2CLCD_ERR_RANGE, bus_up)"
proof -
  have v: "rows (session 0 2) = 2" "cols (session 0 2) = 0"
    by (simp_all add: session_def)
  show ?thesis
    by (simp add: open_custom v i2clcd_set_line_def set_cursor_range)
qed

text \<open>
  C7, amended. For an open session with at least one column, a line with \<open>line < rows\<close>
  that lies inside the table \<open>line_addr\<close>, a non-null string \<open>s\<close> and a bus that accepts
  the writes: \<open>i2clcd_set_line\<close> returns \<open>I2CLCD_OK\<close>, sends the command
  \<open>0x80 OR line_addr[line]\<close> (column 0) and then exactly \<open>cols\<close> data bytes: byte \<open>i\<close>
  is \<open>s[i]\<close> for \<open>i < strlen(s)\<close> and the space 0x20 from there on. The type
  \<open>i2clcd_err_t\<close> has no length-mismatch value.
\<close>

theorem set_line_writes:
  assumes "line < rows ctx" and "0 < cols ctx" and "unat line < length (line_addr ctx)"
    and "bus_ok w (4 + 4 * unat (cols ctx))"
  shows "\<exists>w'. i2clcd_set_line (Some ctx) line (Some s) w = Inr (I2CLCD_OK, w')
     \<and> bus_writes (trace w')
         = bus_writes (trace w)
           @ byte_frame (backlight ctx) False (0x80 OR (line_addr ctx ! unat line + 0))
           @ concat (map (byte_frame (backlight ctx) True)
               (map (\<lambda>i. if i < strlen s then s ! i else 0x20) [0..<unat (cols ctx)]))
     \<and> length (map (\<lambda>i. if i < strlen s then s ! i else 0x20) [0..<unat (cols ctx)])
         = unat (cols ctx)"
  by (simp add: set_line_run [OF assms] trace_emit bus_writes_append bus_writes_concat_bytes
      del: map_map)

theorem set_line_writes_witness:
  "(1 :: uint8_t) < rows (session 4 2) \<and> 0 < cols (session 4 2)
   \<and> unat (1 :: uint8_t) < length (line_addr (session 4 2))
   \<and> bus_ok bus_up (4 + 4 * unat (cols (session 4 2)))
   \<and> (\<exists>w'. i2clcd_set_line (Some (session 4 2)) 1 (Some [0x41, 0x42]) bus_up
              = Inr (I2CLCD_OK, w')
         \<and> bus_writes (trace w')
             = [0xCC, 0xC8, 0x0C, 0x08, 0x4D, 0x49, 0x1D, 0x19, 0x4D, 0x49, 0x2D, 0x29,
                0x2D, 0x29, 0x0D, 0x09, 0x2D, 0x29, 0x0D, 0x09])"
proof -
  have v: "rows (session 4 2) = 2" "cols (session 4 2) = 4" "backlight (session 4 2)"
    "line_addr (session 4 2) = [0x00, 0x40, 0x14, 0x54]"
    by (simp_all add: session_def)
  have t: "trace bus_up = []"
    by (simp add: bus_up_def)
  have h: "(1 :: uint8_t) < rows (session 4 2)" "0 < cols (session 4 2)"
    "unat (1 :: uint8_t) < length (line_addr (session 4 2))"
    "bus_ok bus_up (4 + 4 * unat (cols (session 4 2)))"
    by (simp_all add: v bus_up_ok)
  have u: "[0..<4] = [0, 1, 2, 3]"
    by (simp add: upt_rec)
  show ?thesis
    using h set_line_writes [OF h, of "[0x41, 0x42]"]
    by (simp add: v t u strlen_def byte_frame_def pins_def)
qed

section \<open>Custom characters on the wire\<close>

text \<open>
  C8. For an open session and a non-null pattern: with a slot above 7,
  \<open>i2clcd_create_char\<close> returns \<open>I2CLCD_ERR_RANGE\<close> and leaves the bus as it was; with
  a slot from 0 to 7, a pattern of 8 bytes and a bus that accepts the 40 writes, it
  returns \<open>I2CLCD_OK\<close> and sends exactly the command \<open>0x40 OR (slot << 3)\<close>, then the 8
  bytes of the pattern as data, in order, then the command 0x80, which sets the DDRAM
  address 0.
\<close>

theorem create_char_writes:
  "(7 < location \<longrightarrow>
      i2clcd_create_char (Some ctx) location (Some cm) w = Inr (I2CLCD_ERR_RANGE, w))
   \<and> (location \<le> 7 \<and> length cm = 8 \<and> bus_ok w 40 \<longrightarrow>
        (\<exists>w'. i2clcd_create_char (Some ctx) location (Some cm) w = Inr (I2CLCD_OK, w')
           \<and> bus_writes (trace w')
               = bus_writes (trace w)
                 @ byte_frame (backlight ctx) False (0x40 OR push_bit 3 location)
                 @ concat (map (byte_frame (backlight ctx) True) cm)
                 @ byte_frame (backlight ctx) False 0x80))"
proof -
  have r: "i2clcd_create_char (Some ctx) location (Some cm) w = Inr (I2CLCD_ERR_RANGE, w)"
    if "7 < location"
    using that by (simp add: i2clcd_create_char_def)
  show ?thesis
    using r
    by (auto simp add: create_char_run trace_emit bus_writes_append bus_writes_concat_bytes)
qed

theorem create_char_writes_witness:
  "(7 :: uint8_t) < 8
   \<and> i2clcd_create_char (Some (session 16 2)) 8 (Some [1, 2, 3, 4, 5, 6, 7, 8]) bus_up
       = Inr (I2CLCD_ERR_RANGE, bus_up)
   \<and> (1 :: uint8_t) \<le> 7 \<and> length [1, 2, 3, 4, 5, 6, 7, 8 :: uint8_t] = 8 \<and> bus_ok bus_up 40
   \<and> (\<exists>w'. i2clcd_create_char (Some (session 16 2)) 1 (Some [1, 2, 3, 4, 5, 6, 7, 8]) bus_up
              = Inr (I2CLCD_OK, w')
         \<and> bus_writes (trace w')
             = [76, 72, 140, 136, 13, 9, 29, 25, 13, 9, 45, 41, 13, 9, 61, 57, 13, 9, 77, 73,
                13, 9, 93, 89, 13, 9, 109, 105, 13, 9, 125, 121, 13, 9, 141, 137,
                140, 136, 12, 8])"
proof -
  have t: "trace bus_up = []" and b: "backlight (session 16 2)"
    by (simp_all add: bus_up_def session_def)
  show ?thesis
    using create_char_writes [where ctx = "session 16 2" and location = 8
        and cm = "[1, 2, 3, 4, 5, 6, 7, 8]" and w = bus_up]
      create_char_writes [where ctx = "session 16 2" and location = 1
        and cm = "[1, 2, 3, 4, 5, 6, 7, 8]" and w = bus_up]
    by (simp add: t b bus_up_ok byte_frame_def pins_def)
qed

section \<open>The display-control toggles\<close>

text \<open>
  C9. On a bus that accepts the four writes, each of \<open>i2clcd_display\<close>,
  \<open>i2clcd_cursor\<close> and \<open>i2clcd_blink\<close> returns \<open>I2CLCD_OK\<close>, changes in \<open>display_ctrl\<close>
  only its own bit (2, 1 and 0 respectively: that bit becomes the argument, every other
  bit keeps its value) and sends the whole register as the command
  \<open>0x08 OR display_ctrl\<close>. In particular \<open>i2clcd_cursor\<close> with \<open>true\<close> after
  \<open>i2clcd_blink\<close> with \<open>true\<close> sends a register value whose blink bit, bit 0, is set.
\<close>

theorem toggles_independent:
  "(bus_ok w 4 \<longrightarrow>
      i2clcd_display (Some ctx) on w
        = (I2CLCD_OK, Some (ctx\<lparr>display_ctrl := with_flag 2 on (display_ctrl ctx)\<rparr>),
           emit w (byte_events (backlight ctx) False
                     (0x08 OR with_flag 2 on (display_ctrl ctx))))
    \<and> i2clcd_cursor (Some ctx) on w
        = (I2CLCD_OK, Some (ctx\<lparr>display_ctrl := with_flag 1 on (display_ctrl ctx)\<rparr>),
           emit w (byte_events (backlight ctx) False
                     (0x08 OR with_flag 1 on (display_ctrl ctx))))
    \<and> i2clcd_blink (Some ctx) on w
        = (I2CLCD_OK, Some (ctx\<lparr>display_ctrl := with_flag 0 on (display_ctrl ctx)\<rparr>),
           emit w (byte_events (backlight ctx) False
                     (0x08 OR with_flag 0 on (display_ctrl ctx)))))
   \<and> (\<forall>n<3. \<forall>k. bit (with_flag n on (display_ctrl ctx)) k
                    = (if k = n then on else bit (display_ctrl ctx) k))
   \<and> (bus_ok w 8 \<longrightarrow>
        (case i2clcd_blink (Some ctx) True w of (e1, h1, w1) \<Rightarrow>
           i2clcd_cursor h1 True w1
             = (I2CLCD_OK,
                Some (ctx\<lparr>display_ctrl := with_flag 1 True (with_flag 0 True (display_ctrl ctx))\<rparr>),
                emit w1 (byte_events (backlight ctx) False
                           (0x08 OR with_flag 1 True (with_flag 0 True (display_ctrl ctx)))))
           \<and> bus_writes (trace (emit w1 (byte_events (backlight ctx) False
                           (0x08 OR with_flag 1 True (with_flag 0 True (display_ctrl ctx))))))
               = bus_writes (trace w1)
                 @ byte_frame (backlight ctx) False
                     (0x08 OR with_flag 1 True (with_flag 0 True (display_ctrl ctx)))))
   \<and> bit (0x08 OR with_flag 1 True (with_flag 0 True (display_ctrl ctx))) 0"
proof -
  have d: "i2clcd_display (Some ctx) on w
           = (I2CLCD_OK, Some (ctx\<lparr>display_ctrl := with_flag 2 on (display_ctrl ctx)\<rparr>),
              emit w (byte_events (backlight ctx) False
                        (0x08 OR with_flag 2 on (display_ctrl ctx))))" if "bus_ok w 4"
    using display_run [OF that, of "[]" ctx on] by (simp add: emit_Nil)
  have c: "i2clcd_cursor (Some ctx) on w
           = (I2CLCD_OK, Some (ctx\<lparr>display_ctrl := with_flag 1 on (display_ctrl ctx)\<rparr>),
              emit w (byte_events (backlight ctx) False
                        (0x08 OR with_flag 1 on (display_ctrl ctx))))" if "bus_ok w 4"
    using cursor_run [OF that, of "[]" ctx on] by (simp add: emit_Nil)
  have b: "i2clcd_blink (Some ctx) on w
           = (I2CLCD_OK, Some (ctx\<lparr>display_ctrl := with_flag 0 on (display_ctrl ctx)\<rparr>),
              emit w (byte_events (backlight ctx) False
                        (0x08 OR with_flag 0 on (display_ctrl ctx))))" if "bus_ok w 4" for on
    using blink_run [OF that, of "[]" ctx on] by (simp add: emit_Nil)
  have bits: "\<forall>n<3. \<forall>k. bit (with_flag n on (display_ctrl ctx)) k
                        = (if k = n then on else bit (display_ctrl ctx) k)"
    by (simp add: bit_with_flag)
  let ?d1 = "with_flag 0 True (display_ctrl ctx)"
  let ?es = "byte_events (backlight ctx) False (0x08 OR ?d1)"
  have s2: "i2clcd_cursor (Some (ctx\<lparr>display_ctrl := ?d1\<rparr>)) True (emit w ?es)
      = (I2CLCD_OK, Some (ctx\<lparr>display_ctrl := with_flag 1 True ?d1\<rparr>),
         emit (emit w ?es) (byte_events (backlight ctx) False (0x08 OR with_flag 1 True ?d1)))"
    if "bus_ok w 8"
    using cursor_run [OF that, of ?es "ctx\<lparr>display_ctrl := ?d1\<rparr>" True]
    by (simp add: emit_emit)
  have four: "bus_ok w 4" if "bus_ok w 8"
    using that by (rule bus_ok_mono) simp
  have b0: "bit (0x08 OR with_flag 1 True ?d1) 0"
    by (simp only: bit_or_iff bit_with_flag) simp
  show ?thesis
    using bits b0 by (simp add: d c b b [OF four] s2 trace_emit bus_writes_append)
qed

theorem toggles_independent_witness:
  "bus_ok bus_up 8
   \<and> i2clcd_blink (Some (session 16 2)) True bus_up
       = (I2CLCD_OK, Some ((session 16 2)\<lparr>display_ctrl := 0x05\<rparr>),
          emit bus_up (byte_events True False 0x0D))
   \<and> i2clcd_cursor (Some ((session 16 2)\<lparr>display_ctrl := 0x05\<rparr>)) True
         (emit bus_up (byte_events True False 0x0D))
       = (I2CLCD_OK, Some ((session 16 2)\<lparr>display_ctrl := 0x07\<rparr>),
          emit (emit bus_up (byte_events True False 0x0D)) (byte_events True False 0x0F))
   \<and> bit (0x0F :: uint8_t) 0"
proof -
  have h: "bus_ok bus_up 8"
    by (rule bus_up_ok)
  have v: "display_ctrl (session 16 2) = 0x04" "backlight (session 16 2)"
    by (simp_all add: session_def)
  show ?thesis
    using h toggles_independent [of bus_up "session 16 2" True]
    by (auto simp add: v with_flag_def bus_up_ok)
qed

section \<open>The table of line addresses\<close>

text \<open>
  C10. Every session returned with \<open>I2CLCD_OK\<close> by \<open>i2clcd_open\<close> or \<open>i2clcd_init\<close>,
  whatever the size, has the table 0x00, 0x40, 0x14, 0x54; the operations that update
  the session (\<open>i2clcd_display\<close>, \<open>i2clcd_cursor\<close>, \<open>i2clcd_blink\<close>,
  \<open>i2clcd_backlight\<close>) leave the table as it is, and the other operations only read
  the session; so a 16x2 session has two rows, at 0x00 and 0x40.
\<close>

theorem line_table_fixed:
  "(i2clcd_open os config handle = (I2CLCD_OK, Some ctx)
      \<longrightarrow> line_addr ctx = [0x00, 0x40, 0x14, 0x54])
   \<and> (i2clcd_init os config handle w = (I2CLCD_OK, Some ctx, w')
      \<longrightarrow> line_addr ctx = [0x00, 0x40, 0x14, 0x54])
   \<and> map_option line_addr (fst (snd (i2clcd_display (Some s) on w))) = Some (line_addr s)
   \<and> map_option line_addr (fst (snd (i2clcd_cursor (Some s) on w))) = Some (line_addr s)
   \<and> map_option line_addr (fst (snd (i2clcd_blink (Some s) on w))) = Some (line_addr s)
   \<and> map_option line_addr (fst (snd (i2clcd_backlight (Some s) on w))) = Some (line_addr s)
   \<and> (i2clcd_open os (Some cfg) handle = (I2CLCD_OK, Some ctx) \<and> cfg_size cfg = I2CLCD_16X2
      \<longrightarrow> rows ctx = 2 \<and> line_addr ctx ! 0 = 0x00 \<and> line_addr ctx ! 1 = 0x40)"
proof -
  have i: "line_addr ctx = [0x00, 0x40, 0x14, 0x54]"
    if "i2clcd_init os config handle w = (I2CLCD_OK, Some ctx, w')"
    using init_session [OF that] open_table by auto
  have ops: "map_option line_addr (fst (snd (i2clcd_display (Some s) on w))) = Some (line_addr s)"
    "map_option line_addr (fst (snd (i2clcd_cursor (Some s) on w))) = Some (line_addr s)"
    "map_option line_addr (fst (snd (i2clcd_blink (Some s) on w))) = Some (line_addr s)"
    "map_option line_addr (fst (snd (i2clcd_backlight (Some s) on w))) = Some (line_addr s)"
    by (simp_all add: i2clcd_display_def i2clcd_cursor_def i2clcd_blink_def i2clcd_backlight_def
        Let_def split_def)
  have p: "rows ctx = 2 \<and> line_addr ctx ! 0 = 0x00 \<and> line_addr ctx ! 1 = 0x40"
    if "i2clcd_open os (Some cfg) handle = (I2CLCD_OK, Some ctx)" "cfg_size cfg = I2CLCD_16X2"
    using open_dims [OF that(1)] open_table [OF that(1)] that(2)
    by (auto simp add: I2CLCD_16X2_def I2CLCD_20X4_def I2CLCD_CUSTOM_def)
  have o: "i2clcd_open os config handle = (I2CLCD_OK, Some ctx)
      \<longrightarrow> line_addr ctx = [0x00, 0x40, 0x14, 0x54]"
    using open_table by blast
  have i': "i2clcd_init os config handle w = (I2CLCD_OK, Some ctx, w')
      \<longrightarrow> line_addr ctx = [0x00, 0x40, 0x14, 0x54]"
    using i by blast
  have p': "i2clcd_open os (Some cfg) handle = (I2CLCD_OK, Some ctx) \<and> cfg_size cfg = I2CLCD_16X2
      \<longrightarrow> rows ctx = 2 \<and> line_addr ctx ! 0 = 0x00 \<and> line_addr ctx ! 1 = 0x40"
    using p by blast
  from o i' ops p' show ?thesis
    by blast
qed

theorem line_table_fixed_witness:
  "i2clcd_open sys_ok (Some (cfg_preset I2CLCD_16X2)) True = (I2CLCD_OK, Some (session 16 2))
   \<and> (\<exists>w'. i2clcd_init sys_ok (Some (cfg_preset I2CLCD_16X2)) True bus_up
               = (I2CLCD_OK, Some (session 16 2), w'))
   \<and> cfg_size (cfg_preset I2CLCD_16X2) = I2CLCD_16X2
   \<and> line_addr (session 16 2) = [0x00, 0x40, 0x14, 0x54]
   \<and> rows (session 16 2) = 2
   \<and> line_addr (session 16 2) ! 0 = 0x00 \<and> line_addr (session 16 2) ! 1 = 0x40"
proof -
  have h: "i2clcd_open sys_ok (Some (cfg_preset I2CLCD_16X2)) True = (I2CLCD_OK, Some (session 16 2))"
    by (rule open_preset_16x2)
  have same: "(session 16 2)\<lparr>display_ctrl := 0x04, entry_mode := 0x02\<rparr> = session 16 2"
    by (simp add: session_def)
  obtain w' where i: "i2clcd_init sys_ok (Some (cfg_preset I2CLCD_16X2)) True bus_up
      = (I2CLCD_OK, Some (session 16 2), w')"
    using init_trace [OF h bus_up_ok [of 25]] same by simp
  have z: "cfg_size (cfg_preset I2CLCD_16X2) = I2CLCD_16X2"
    by (simp add: cfg_preset_def)
  have t: "line_addr (session 16 2) = [0x00, 0x40, 0x14, 0x54]"
    using i line_table_fixed [where os = sys_ok and config = "Some (cfg_preset I2CLCD_16X2)"
        and handle = True and ctx = "session 16 2" and w = bus_up and w' = w']
    by blast
  have r: "rows (session 16 2) = 2 \<and> line_addr (session 16 2) ! 0 = 0x00
      \<and> line_addr (session 16 2) ! 1 = 0x40"
    using h z line_table_fixed [where os = sys_ok and cfg = "cfg_preset I2CLCD_16X2"
        and handle = True and ctx = "session 16 2"]
    by blast
  from h i z t r show ?thesis
    by blast
qed

end
